theory Spec2Isabelle
  imports Main "HOL-Library.AList"
begin

section \<open>JavaScript values\<close>

text \<open>
  Tool arguments and tool results are untyped JavaScript values (\<^verbatim>\<open>any\<close>,
  \<^verbatim>\<open>Record<string, any>\<close>).  They arrive as parsed JSON, so the model has the
  JSON shapes plus \<^verbatim>\<open>undefined\<close>.  Two more shapes are needed because a lookup in
  an object literal also reaches \<^verbatim>\<open>Object.prototype\<close>: a built-in function and
  the prototype object itself.  The numeric payload is never inspected by the code
  modelled here; it is kept as an integer.
\<close>

datatype jsval =
    JUndefined
  | JNull
  | JBool bool
  | JNum int
  | JStr string
  | JArr "jsval list"
  | JObj "(string \<times> jsval) list"
  | JFunction string
  | JObjectPrototype

text \<open>A thrown value: an instance of \<^verbatim>\<open>Error\<close> with its message, or anything else.\<close>

datatype js_error = JsError string | NonError jsval

text \<open>
  What awaiting a promise gives: its value, the value it was rejected with, or nothing
  at all when the promise is never settled.
\<close>

datatype 'a outcome = Fulfilled 'a | Rejected js_error | Unsettled

text \<open>JavaScript truthiness, as used by \<^verbatim>\<open>||\<close>.\<close>

fun truthy :: "jsval \<Rightarrow> bool" where
  "truthy JUndefined = False"
| "truthy JNull = False"
| "truthy (JBool b) = b"
| "truthy (JNum n) = (n \<noteq> 0)"
| "truthy (JStr s) = (s \<noteq> [])"
| "truthy (JArr _) = True"
| "truthy (JObj _) = True"
| "truthy (JFunction _) = True"
| "truthy JObjectPrototype = True"

section \<open>Tool registry (backend/src/tools/registry.ts)\<close>

record ToolCall =
  name :: string
  parameters :: jsval

record ToolExecutionResult =
  success :: bool
  result :: jsval
  error :: "string option"

text \<open>
  The frontend tool emitter is a callback into the outside world.  It is modelled as a
  function on an arbitrary world state \<open>'w\<close>; what awaiting its promise gives is
  its outcome.
\<close>

type_synonym 'w FrontendToolEmitter =
  "string \<Rightarrow> jsval \<Rightarrow> 'w \<Rightarrow> ToolExecutionResult outcome \<times> 'w"

record 'w ToolRegistry =
  frontendToolEmitter :: "'w FrontendToolEmitter option"

definition setFrontendToolEmitter ::
  "'w FrontendToolEmitter \<Rightarrow> 'w ToolRegistry \<Rightarrow> 'w ToolRegistry" where
  "setFrontendToolEmitter emitter reg = reg\<lparr>frontendToolEmitter := Some emitter\<rparr>"

subsection \<open>colorToHex\<close>

definition startsWithHash :: "string \<Rightarrow> bool" where
  "startsWithHash s = (case s of [] \<Rightarrow> False | c # _ \<Rightarrow> c = CHR ''#'')"

text \<open>
  Strings are modelled as ASCII text, where \<^verbatim>\<open>toLowerCase\<close> changes the letters
  A to Z and leaves every other character alone.
\<close>

definition isUpper :: "char \<Rightarrow> bool" where
  "isUpper c \<longleftrightarrow> 65 \<le> (of_char c :: nat) \<and> (of_char c :: nat) \<le> 90"

definition toLowerCaseChar :: "char \<Rightarrow> char" where
  "toLowerCaseChar c = (if isUpper c then char_of ((of_char c :: nat) + 32) else c)"

definition toLowerCase :: "string \<Rightarrow> string" where
  "toLowerCase s = map toLowerCaseChar s"

definition colorMap :: "(string \<times> string) list" where
  "colorMap =
    [(''red'', ''#FF0000''),
     (''blue'', ''#0000FF''),
     (''green'', ''#00FF00''),
     (''yellow'', ''#FFFF00''),
     (''orange'', ''#FFA500''),
     (''purple'', ''#800080''),
     (''pink'', ''#FFC0CB''),
     (''cyan'', ''#00FFFF''),
     (''black'', ''#000000''),
     (''white'', ''#FFFFFF''),
     (''gray'', ''#808080''),
     (''grey'', ''#808080''),
     (''dark'', ''#1a1a1a''),
     (''light'', ''#f5f5f5'')]"

text \<open>
  \<^verbatim>\<open>colorMap\<close> is an object literal, so its prototype is \<^verbatim>\<open>Object.prototype\<close>
  and \<^verbatim>\<open>colorMap[key]\<close> finds the inherited members when \<open>key\<close> is not an own
  property.  These are the members of \<^verbatim>\<open>Object.prototype\<close>.
\<close>

definition objectPrototypeMembers :: "(string \<times> jsval) list" where
  "objectPrototypeMembers =
    [(''constructor'', JFunction ''Object''),
     (''__defineGetter__'', JFunction ''__defineGetter__''),
     (''__defineSetter__'', JFunction ''__defineSetter__''),
     (''hasOwnProperty'', JFunction ''hasOwnProperty''),
     (''__lookupGetter__'', JFunction ''__lookupGetter__''),
     (''__lookupSetter__'', JFunction ''__lookupSetter__''),
     (''isPrototypeOf'', JFunction ''isPrototypeOf''),
     (''propertyIsEnumerable'', JFunction ''propertyIsEnumerable''),
     (''toString'', JFunction ''toString''),
     (''valueOf'', JFunction ''valueOf''),
     (''__proto__'', JObjectPrototype),
     (''toLocaleString'', JFunction ''toLocaleString'')]"

text \<open>\<^verbatim>\<open>colorMap[key]\<close>: own property first, then the prototype, else undefined.\<close>

definition colorMapGet :: "string \<Rightarrow> jsval" where
  "colorMapGet key =
     (case map_of colorMap key of
        Some hex \<Rightarrow> JStr hex
      | None \<Rightarrow>
          (case map_of objectPrototypeMembers key of
             Some v \<Rightarrow> v
           | None \<Rightarrow> JUndefined))"

text \<open>
  \<^verbatim>\<open>colorToHex(color)\<close>.  The parameter is declared a string, but the caller passes
  whatever \<^verbatim>\<open>parameters.color\<close> is.  Reading \<^verbatim>\<open>startsWith\<close> from undefined or
  null throws a TypeError; on any other value that is not a string the member is
  undefined and calling it throws a TypeError.  The message texts are those of V8.
\<close>

fun colorToHex :: "jsval \<Rightarrow> js_error + jsval" where
  "colorToHex (JStr color) =
     (if startsWithHash color then Inr (JStr color)
      else (let v = colorMapGet (toLowerCase color)
            in if truthy v then Inr v else Inr (JStr color)))"
| "colorToHex JUndefined =
     Inl (JsError ''Cannot read properties of undefined (reading 'startsWith')'')"
| "colorToHex JNull =
     Inl (JsError ''Cannot read properties of null (reading 'startsWith')'')"
| "colorToHex _ = Inl (JsError ''color.startsWith is not a function'')"

subsection \<open>executeTool\<close>

text \<open>
  \<^verbatim>\<open>parameters.color\<close>: a TypeError on undefined and null, the own property of an
  object, and undefined on everything else (no prototype has a member \<open>color\<close>).
\<close>

fun parametersColor :: "jsval \<Rightarrow> js_error + jsval" where
  "parametersColor JUndefined =
     Inl (JsError ''Cannot read properties of undefined (reading 'color')'')"
| "parametersColor JNull =
     Inl (JsError ''Cannot read properties of null (reading 'color')'')"
| "parametersColor (JObj props) =
     Inr (case map_of props ''color'' of Some v \<Rightarrow> v | None \<Rightarrow> JUndefined)"
| "parametersColor _ = Inr JUndefined"

text \<open>The \<^verbatim>\<open>catch\<close> block of \<^verbatim>\<open>executeChangeBackgroundColor\<close>.\<close>

definition caught :: "js_error \<Rightarrow> ToolExecutionResult" where
  "caught e =
     \<lparr>success = False, result = JUndefined,
      error = Some (case e of JsError message \<Rightarrow> message | NonError _ \<Rightarrow> ''Unknown error'')\<rparr>"

text \<open>
  Both functions return what awaiting them gives, the list of emitter invocations they
  made (tool name and arguments), and the world afterwards.  \<open>Rejected\<close> would be an
  exception leaving the registry.
\<close>

definition executeChangeBackgroundColor ::
  "'w ToolRegistry \<Rightarrow> jsval \<Rightarrow> 'w \<Rightarrow>
     ToolExecutionResult outcome \<times> (string \<times> jsval) list \<times> 'w" where
  "executeChangeBackgroundColor reg params w =
     (case frontendToolEmitter reg of
        None \<Rightarrow>
          (Fulfilled \<lparr>success = False, result = JUndefined,
                      error = Some ''Frontend tool emitter not configured''\<rparr>, [], w)
      | Some emitter \<Rightarrow>
          (case parametersColor params of
             Inl e \<Rightarrow> (Fulfilled (caught e), [], w)
           | Inr color \<Rightarrow>
               (case colorToHex color of
                  Inl e \<Rightarrow> (Fulfilled (caught e), [], w)
                | Inr hexColor \<Rightarrow>
                    (let args = JObj [(''color'', hexColor)];
                         sent = [(''changeBackgroundColor'', args)]
                     in case emitter ''changeBackgroundColor'' args w of
                          (Fulfilled r, w') \<Rightarrow> (Fulfilled r, sent, w')
                        | (Rejected e, w') \<Rightarrow> (Fulfilled (caught e), sent, w')
                        | (Unsettled, w') \<Rightarrow> (Unsettled, sent, w')))))"

definition executeTool ::
  "'w ToolRegistry \<Rightarrow> ToolCall \<Rightarrow> 'w \<Rightarrow>
     ToolExecutionResult outcome \<times> (string \<times> jsval) list \<times> 'w" where
  "executeTool reg toolCall w =
     (if name toolCall = ''changeBackgroundColor''
      then executeChangeBackgroundColor reg (parameters toolCall) w
      else (Fulfilled \<lparr>success = False, result = JUndefined,
                        error = Some (''Unknown tool: '' @ name toolCall)\<rparr>, [], w))"

section \<open>Delegated executions over the socket (backend/src/server.ts)\<close>

text \<open>
  One connection owns one map \<^verbatim>\<open>pendingToolExecutions\<close> from execution id to the
  \<^verbatim>\<open>resolve\<close>/\<^verbatim>\<open>reject\<close> pair of a promise.  Promises are numbered in the
  order of their creation; a stored pair is the number of its promise.  The state also
  keeps every call of \<^verbatim>\<open>resolve\<close> or \<^verbatim>\<open>reject\<close> that was made, the armed
  timers, and the \<^verbatim>\<open>execute-tool\<close> messages emitted to the peer.  Console output is
  not part of the model.
\<close>

datatype settlement = Resolve ToolExecutionResult | Reject js_error

text \<open>
  The data of a \<^verbatim>\<open>tool-result\<close> message: the fields of a result and the
  execution id.
\<close>

record ToolResultData = ToolExecutionResult +
  executionId :: string

record Connection =
  socketId :: string
  clock :: nat
  pendingToolExecutions :: "(string \<times> nat) list"
  settled :: "(nat \<times> settlement) list"
  timers :: "(nat \<times> string \<times> nat) list"
  emitted :: "(string \<times> string \<times> jsval) list"
  promises :: nat

text \<open>The decimal digits of a number, as a template literal prints \<^verbatim>\<open>Date.now()\<close>.\<close>

definition digit :: "nat \<Rightarrow> char" where
  "digit d = ''0123456789'' ! d"

fun decimal :: "nat \<Rightarrow> string" where
  "decimal n =
     (if n < 10 then [digit n]
      else decimal (n div 10) @ [digit (n mod 10)])"

declare decimal.simps [simp del]

text \<open>\<^verbatim>\<open>`${socket.id}-${Date.now()}`\<close>\<close>

definition newExecutionId :: "Connection \<Rightarrow> string" where
  "newExecutionId c = socketId c @ ''-'' @ decimal (clock c)"

text \<open>
  The callback given to \<^verbatim>\<open>setFrontendToolEmitter\<close>: creates the promise, stores its
  pair under the new id, emits \<^verbatim>\<open>execute-tool\<close>, and arms a timer due 10000 ms
  later.  A timer is its due time, the id it closes over, and the promise whose
  \<^verbatim>\<open>reject\<close> it closes over.  Returns the promise.
\<close>

definition toolEmitter :: "string \<Rightarrow> jsval \<Rightarrow> Connection \<Rightarrow> nat \<times> Connection" where
  "toolEmitter toolName params c =
     (let p = promises c;
          eid = newExecutionId c
      in (p, c\<lparr>pendingToolExecutions := AList.update eid p (pendingToolExecutions c),
                emitted := emitted c @ [(eid, toolName, params)],
                timers := timers c @ [(clock c + 10000, eid, p)],
                promises := Suc p\<rparr>))"

text \<open>The timer callback of the execution \<open>eid\<close> with promise \<open>p\<close>.\<close>

definition timeoutFired :: "string \<times> nat \<Rightarrow> Connection \<Rightarrow> Connection" where
  "timeoutFired t c =
     (case t of (eid, p) \<Rightarrow>
        if map_of (pendingToolExecutions c) eid \<noteq> None
        then c\<lparr>pendingToolExecutions := AList.delete eid (pendingToolExecutions c),
                settled := settled c @ [(p, Reject (JsError ''Tool execution timeout''))]\<rparr>
        else c)"

text \<open>The handler of \<^verbatim>\<open>tool-result\<close>.\<close>

definition onToolResult :: "ToolResultData \<Rightarrow> Connection \<Rightarrow> Connection" where
  "onToolResult data c =
     (case map_of (pendingToolExecutions c) (executionId data) of
        None \<Rightarrow> c
      | Some pending \<Rightarrow>
          c\<lparr>pendingToolExecutions := AList.delete (executionId data) (pendingToolExecutions c),
            settled := settled c @
              [(pending,
                if success data
                then Resolve \<lparr>success = True, result = result data, error = None\<rparr>
                else Reject (JsError
                       (case error data of
                          None \<Rightarrow> ''Tool execution failed''
                        | Some m \<Rightarrow> if m = [] then ''Tool execution failed'' else m)))]\<rparr>)"

text \<open>The handler of \<^verbatim>\<open>disconnect\<close> only writes to the console.\<close>

definition onDisconnect :: "Connection \<Rightarrow> Connection" where
  "onDisconnect c = c"

text \<open>
  Time passes until \<open>t\<close>: the clock moves on (never back) and every timer that is due
  by then fires, in the order in which the timers were armed.
\<close>

definition isDue :: "nat \<Rightarrow> nat \<times> string \<times> nat \<Rightarrow> bool" where
  "isDue t tm = (fst tm \<le> t)"

definition timePasses :: "nat \<Rightarrow> Connection \<Rightarrow> Connection" where
  "timePasses t c =
     (let now = max (clock c) t
      in fold timeoutFired (map snd (filter (isDue now) (timers c)))
           (c\<lparr>clock := now, timers := filter (\<lambda>tm. \<not> isDue now tm) (timers c)\<rparr>))"

datatype event =
    EmitterCall string jsval
  | ToolResult ToolResultData
  | TimePasses nat
  | Disconnect

fun step :: "event \<Rightarrow> Connection \<Rightarrow> Connection" where
  "step (EmitterCall toolName params) c = snd (toolEmitter toolName params c)"
| "step (ToolResult data) c = onToolResult data c"
| "step (TimePasses t) c = timePasses t c"
| "step Disconnect c = onDisconnect c"

definition run :: "event list \<Rightarrow> Connection \<Rightarrow> Connection" where
  "run es c = fold step es c"

text \<open>A connection that has just been opened at time \<open>t\<close>.\<close>

definition connected :: "string \<Rightarrow> nat \<Rightarrow> Connection" where
  "connected sid t =
     \<lparr>socketId = sid, clock = t, pendingToolExecutions = [], settled = [],
      timers = [], emitted = [], promises = 0\<rparr>"

text \<open>
  How often \<^verbatim>\<open>resolve\<close> or \<^verbatim>\<open>reject\<close> of a promise was called, and what awaiting
  the promise gives (the first call decides; without a call it stays pending).
\<close>

definition settleCount :: "Connection \<Rightarrow> nat \<Rightarrow> nat" where
  "settleCount c p = length (filter (\<lambda>x. fst x = p) (settled c))"

definition promiseState :: "Connection \<Rightarrow> nat \<Rightarrow> ToolExecutionResult outcome" where
  "promiseState c p =
     (case filter (\<lambda>x. fst x = p) (settled c) of
        [] \<Rightarrow> Unsettled
      | (_, Resolve r) # _ \<Rightarrow> Fulfilled r
      | (_, Reject e) # _ \<Rightarrow> Rejected e)"

section \<open>The voice agent (backend/src/agent/voice-agent.ts)\<close>

datatype role = System | User | Assistant | Tool

record Message =
  role :: role
  content :: string

record ConversationEntry = Message +
  timestamp :: nat

text \<open>
  A tool call of the model backend.  Its arguments are declared a string, but
  \<^verbatim>\<open>processMessage\<close> also accepts a value that is already parsed.
\<close>

datatype arguments = ArgumentsString string | ArgumentsValue jsval

record FunctionToolCall =
  functionName :: string
  functionArguments :: arguments

record ChatCompletionResponse =
  messageContent :: string
  tool_calls :: "FunctionToolCall list option"

text \<open>
  What the agent takes from outside: the two model backends (a chat either rejects with
  an error or yields a response), the JSON functions of the language, and the clock.
  Each backend reads and changes the world \<open>'w\<close>.
\<close>

record 'w Runtime =
  routerChat :: "Message list \<Rightarrow> 'w \<Rightarrow> (js_error + ChatCompletionResponse) \<times> 'w"
  conversationChat :: "Message list \<Rightarrow> 'w \<Rightarrow> (js_error + ChatCompletionResponse) \<times> 'w"
  jsonParse :: "string \<Rightarrow> js_error + jsval"
  jsonStringify :: "ToolExecutionResult list \<Rightarrow> string"
  dateNow :: "'w \<Rightarrow> nat"

record VoiceAgent =
  conversationHistory :: "ConversationEntry list"
  systemPrompt :: string
  maxHistoryLength :: nat

text \<open>The agent as its constructor leaves it.\<close>

definition newVoiceAgent :: "string \<Rightarrow> VoiceAgent" where
  "newVoiceAgent prompt =
     \<lparr>conversationHistory = [], systemPrompt = prompt, maxHistoryLength = 10\<rparr>"

text \<open>
  \<^verbatim>\<open>xs.slice(-k)\<close> for \<open>k \<ge> 0\<close>: the last \<open>k\<close> elements, and, since \<^verbatim>\<open>-0\<close> is
  \<^verbatim>\<open>0\<close>, the whole array when \<open>k = 0\<close>.
\<close>

definition sliceFromEnd :: "nat \<Rightarrow> 'a list \<Rightarrow> 'a list" where
  "sliceFromEnd k xs = (if k = 0 then xs else drop (length xs - k) xs)"

definition addToHistory :: "role \<Rightarrow> string \<Rightarrow> nat \<Rightarrow> VoiceAgent \<Rightarrow> VoiceAgent" where
  "addToHistory r text now agent =
     agent\<lparr>conversationHistory :=
       conversationHistory agent @ [\<lparr>role = r, content = text, timestamp = now\<rparr>]\<rparr>"

definition buildMessagesArray :: "VoiceAgent \<Rightarrow> Message list" where
  "buildMessagesArray agent =
     \<lparr>role = System, content = systemPrompt agent\<rparr> #
     map (\<lambda>entry. \<lparr>role = role entry, content = content entry\<rparr>) (conversationHistory agent)"

text \<open>\<^verbatim>\<open>trimHistory\<close> is defined by the class; no method calls it.\<close>

definition trimHistory :: "VoiceAgent \<Rightarrow> VoiceAgent" where
  "trimHistory agent =
     (if length (conversationHistory agent) > maxHistoryLength agent * 2
      then agent\<lparr>conversationHistory :=
             sliceFromEnd (maxHistoryLength agent * 2) (conversationHistory agent)\<rparr>
      else agent)"

definition clearHistory :: "VoiceAgent \<Rightarrow> VoiceAgent" where
  "clearHistory agent = agent\<lparr>conversationHistory := []\<rparr>"

text \<open>The arguments handed to the registry for one tool call.\<close>

definition toolArgs :: "'w Runtime \<Rightarrow> FunctionToolCall \<Rightarrow> js_error + jsval" where
  "toolArgs rt toolCall =
     (case functionArguments toolCall of
        ArgumentsString s \<Rightarrow> jsonParse rt s
      | ArgumentsValue v \<Rightarrow> Inr v)"

text \<open>
  The loop over the tool calls of the router, with the results collected so far.  An
  exception ends it, and so does a tool promise that is never settled.
\<close>

fun executeToolCalls ::
  "'w Runtime \<Rightarrow> 'w ToolRegistry \<Rightarrow> FunctionToolCall list \<Rightarrow> ToolExecutionResult list \<Rightarrow> 'w \<Rightarrow>
     ToolExecutionResult list outcome \<times> 'w" where
  "executeToolCalls rt reg [] toolResults w = (Fulfilled toolResults, w)"
| "executeToolCalls rt reg (toolCall # rest) toolResults w =
     (case toolArgs rt toolCall of
        Inl e \<Rightarrow> (Rejected e, w)
      | Inr args \<Rightarrow>
          (case executeTool reg \<lparr>name = functionName toolCall, parameters = args\<rparr> w of
             (Fulfilled r, _, w') \<Rightarrow> executeToolCalls rt reg rest (toolResults @ [r]) w'
           | (Rejected e, _, w') \<Rightarrow> (Rejected e, w')
           | (Unsettled, _, w') \<Rightarrow> (Unsettled, w')))"

text \<open>
  What one call of \<^verbatim>\<open>processMessage\<close> leaves: what awaiting it gives, the agent
  afterwards, the message arrays it handed to the conversation model, and the world.
\<close>

record 'w Processed =
  returned :: "string outcome"
  agentAfter :: VoiceAgent
  conversationRequests :: "Message list list"
  worldAfter :: 'w

text \<open>The outer \<^verbatim>\<open>catch\<close> of \<^verbatim>\<open>processMessage\<close>, which throws a new error.\<close>

definition failedToProcess :: "js_error \<Rightarrow> js_error" where
  "failedToProcess e =
     JsError (''Failed to process message: '' @
       (case e of JsError message \<Rightarrow> message | NonError _ \<Rightarrow> ''Unknown error''))"

definition toolContext :: "'w Runtime \<Rightarrow> ToolExecutionResult list \<Rightarrow> string" where
  "toolContext rt toolResults =
     ''Tool executed successfully: '' @ jsonStringify rt toolResults @
     ''. Generate a natural, personality-driven response about what was done.''"

text \<open>Branch A of \<^verbatim>\<open>processMessage\<close>: the router asked for tools.\<close>

definition toolBranch ::
  "'w Runtime \<Rightarrow> 'w ToolRegistry \<Rightarrow> string \<Rightarrow> FunctionToolCall list \<Rightarrow> VoiceAgent \<Rightarrow> 'w \<Rightarrow>
     'w Processed" where
  "toolBranch rt reg userInput toolCalls agent w =
     (case executeToolCalls rt reg toolCalls [] w of
        (Rejected e, w') \<Rightarrow>
          \<lparr>returned = Rejected (failedToProcess e), agentAfter = agent,
           conversationRequests = [], worldAfter = w'\<rparr>
      | (Unsettled, w') \<Rightarrow>
          \<lparr>returned = Unsettled, agentAfter = agent,
           conversationRequests = [], worldAfter = w'\<rparr>
      | (Fulfilled toolResults, w') \<Rightarrow>
          (let responseMessages =
                 [\<lparr>role = System, content = systemPrompt agent\<rparr>,
                  \<lparr>role = User, content = userInput\<rparr>,
                  \<lparr>role = Assistant, content = toolContext rt toolResults\<rparr>]
           in case conversationChat rt responseMessages w' of
                (Inl e, w'') \<Rightarrow>
                  \<lparr>returned = Rejected (failedToProcess e), agentAfter = agent,
                   conversationRequests = [responseMessages], worldAfter = w''\<rparr>
              | (Inr conversationResponse, w'') \<Rightarrow>
                  (let finalResponse = messageContent conversationResponse;
                       added = addToHistory Assistant finalResponse (dateNow rt w'') agent;
                       cleared =
                         (if length (conversationHistory added) > 4
                          then added\<lparr>conversationHistory :=
                                 sliceFromEnd 2 (conversationHistory added)\<rparr>
                          else added)
                   in \<lparr>returned = Fulfilled finalResponse, agentAfter = cleared,
                       conversationRequests = [responseMessages], worldAfter = w''\<rparr>)))"

text \<open>Branch B: no tool, the conversation model gets the plain history.\<close>

definition conversationBranch ::
  "'w Runtime \<Rightarrow> Message list \<Rightarrow> VoiceAgent \<Rightarrow> 'w \<Rightarrow> 'w Processed" where
  "conversationBranch rt messages agent w =
     (case conversationChat rt messages w of
        (Inl e, w') \<Rightarrow>
          \<lparr>returned = Rejected (failedToProcess e), agentAfter = agent,
           conversationRequests = [messages], worldAfter = w'\<rparr>
      | (Inr conversationResponse, w') \<Rightarrow>
          (let finalResponse = messageContent conversationResponse
           in \<lparr>returned = Fulfilled finalResponse,
               agentAfter = addToHistory Assistant finalResponse (dateNow rt w') agent,
               conversationRequests = [messages], worldAfter = w'\<rparr>))"

definition processMessage ::
  "'w Runtime \<Rightarrow> 'w ToolRegistry \<Rightarrow> string \<Rightarrow> VoiceAgent \<Rightarrow> 'w \<Rightarrow> 'w Processed" where
  "processMessage rt reg userInput agent w =
     (let asked = addToHistory User userInput (dateNow rt w) agent;
          messages = buildMessagesArray asked
      in case routerChat rt messages w of
           (Inl e, w') \<Rightarrow>
             \<lparr>returned = Rejected (failedToProcess e), agentAfter = asked,
              conversationRequests = [], worldAfter = w'\<rparr>
         | (Inr routerResponse, w') \<Rightarrow>
             (case tool_calls routerResponse of
                Some (toolCall # rest) \<Rightarrow> toolBranch rt reg userInput (toolCall # rest) asked w'
              | _ \<Rightarrow> conversationBranch rt messages asked w'))"

text \<open>Several utterances, one after the other.\<close>

fun processMessages ::
  "'w Runtime \<Rightarrow> 'w ToolRegistry \<Rightarrow> string list \<Rightarrow> VoiceAgent \<Rightarrow> 'w \<Rightarrow> VoiceAgent \<times> 'w" where
  "processMessages rt reg [] agent w = (agent, w)"
| "processMessages rt reg (userInput # rest) agent w =
     (let done = processMessage rt reg userInput agent w
      in processMessages rt reg rest (agentAfter done) (worldAfter done))"

section \<open>Argument schema and example instances\<close>

text \<open>
  The schema of \<^verbatim>\<open>changeBackgroundColorTool\<close> (tools/definitions.ts): the arguments
  are an object whose required property \<open>color\<close> is a string.
\<close>

fun changeBackgroundColorArgsValid :: "jsval \<Rightarrow> bool" where
  "changeBackgroundColorArgsValid (JObj props) =
     (case map_of props ''color'' of Some (JStr _) \<Rightarrow> True | _ \<Rightarrow> False)"
| "changeBackgroundColorArgsValid _ = False"

text \<open>
  Two emitters for the examples; the world counts their invocations.  One answers as
  the frontend does, the other rejects as the ten second timer does.
\<close>

definition acceptingEmitter :: "nat FrontendToolEmitter" where
  "acceptingEmitter toolName args w =
     (Fulfilled \<lparr>success = True, result = JObj [(''message'', JStr ''Background changed'')],
                 error = None\<rparr>, Suc w)"

definition rejectingEmitter :: "nat FrontendToolEmitter" where
  "rejectingEmitter toolName args w = (Rejected (JsError ''Tool execution timeout''), Suc w)"

text \<open>
  \<^verbatim>\<open>JSON.stringify\<close> on the values of the model, for the examples.  A value without
  a JSON text (undefined, a function) is left out of an object and printed as
  \<open>null\<close> in an array.  Strings are quoted, with the quote, the backslash and the
  control characters escaped.  Properties are printed in the order of the list.  A result
  is printed as the object it is: \<open>success\<close>, then \<open>result\<close> and \<open>error\<close> where
  they are present.
\<close>

fun commaSeparated :: "string list \<Rightarrow> string" where
  "commaSeparated [] = []"
| "commaSeparated [x] = x"
| "commaSeparated (x # y # rest) = x @ '','' @ commaSeparated (y # rest)"

definition hexDigit :: "nat \<Rightarrow> char" where
  "hexDigit d = ''0123456789abcdef'' ! d"

definition escapeChar :: "char \<Rightarrow> string" where
  "escapeChar ch =
     (let n = (of_char ch :: nat)
      in if n = 34 then [CHR 0x5C, CHR 0x22]
         else if n = 92 then [CHR 0x5C, CHR 0x5C]
         else if n = 8 then [CHR 0x5C, CHR ''b'']
         else if n = 9 then [CHR 0x5C, CHR ''t'']
         else if n = 10 then [CHR 0x5C, CHR ''n'']
         else if n = 12 then [CHR 0x5C, CHR ''f'']
         else if n = 13 then [CHR 0x5C, CHR ''r'']
         else if n < 32 then
           [CHR 0x5C, CHR ''u'', CHR ''0'', CHR ''0'', hexDigit (n div 16), hexDigit (n mod 16)]
         else [ch])"

definition quoteString :: "string \<Rightarrow> string" where
  "quoteString s = [CHR 0x22] @ concat (map escapeChar s) @ [CHR 0x22]"

definition decimalInt :: "int \<Rightarrow> string" where
  "decimalInt i = (if i < 0 then ''-'' @ decimal (nat (- i)) else decimal (nat i))"

fun stringifyValue :: "jsval \<Rightarrow> string option"
  and stringifyElements :: "jsval list \<Rightarrow> string list"
  and stringifyProperties :: "(string \<times> jsval) list \<Rightarrow> string list" where
  "stringifyValue JUndefined = None"
| "stringifyValue JNull = Some ''null''"
| "stringifyValue (JBool b) = Some (if b then ''true'' else ''false'')"
| "stringifyValue (JNum n) = Some (decimalInt n)"
| "stringifyValue (JStr s) = Some (quoteString s)"
| "stringifyValue (JArr xs) = Some (''['' @ commaSeparated (stringifyElements xs) @ '']'')"
| "stringifyValue (JObj props) = Some (''{'' @ commaSeparated (stringifyProperties props) @ ''}'')"
| "stringifyValue (JFunction f) = None"
| "stringifyValue JObjectPrototype = Some ''{}''"
| "stringifyElements [] = []"
| "stringifyElements (x # xs) =
     (case stringifyValue x of None \<Rightarrow> ''null'' | Some t \<Rightarrow> t) # stringifyElements xs"
| "stringifyProperties [] = []"
| "stringifyProperties (kv # props) =
     (case stringifyValue (snd kv) of
        None \<Rightarrow> stringifyProperties props
      | Some t \<Rightarrow> (quoteString (fst kv) @ '':'' @ t) # stringifyProperties props)"

definition stringifyResult :: "ToolExecutionResult \<Rightarrow> string" where
  "stringifyResult r =
     ''{'' @ commaSeparated
       ([quoteString ''success'' @ '':'' @ (if success r then ''true'' else ''false'')] @
        (case stringifyValue (result r) of
           None \<Rightarrow> []
         | Some t \<Rightarrow> [quoteString ''result'' @ '':'' @ t]) @
        (case error r of
           None \<Rightarrow> []
         | Some m \<Rightarrow> [quoteString ''error'' @ '':'' @ quoteString m])) @ ''}''"

definition stringifyResults :: "ToolExecutionResult list \<Rightarrow> string" where
  "stringifyResults toolResults = ''['' @ commaSeparated (map stringifyResult toolResults) @ '']''"

text \<open>
  A runtime for the examples: the router asks for the same given tool calls in every
  turn, the conversation model always answers \<open>Done\<close>, the clock is the world.
\<close>

definition askingRouter ::
  "FunctionToolCall list \<Rightarrow> Message list \<Rightarrow> nat \<Rightarrow> (js_error + ChatCompletionResponse) \<times> nat" where
  "askingRouter toolCalls messages w =
     (Inr \<lparr>messageContent = [], tool_calls = Some toolCalls\<rparr>, w)"

definition answeringModel ::
  "Message list \<Rightarrow> nat \<Rightarrow> (js_error + ChatCompletionResponse) \<times> nat" where
  "answeringModel messages w = (Inr \<lparr>messageContent = ''Done'', tool_calls = None\<rparr>, w)"

definition exampleRuntime :: "FunctionToolCall list \<Rightarrow> nat Runtime" where
  "exampleRuntime toolCalls =
     \<lparr>routerChat = askingRouter toolCalls, conversationChat = answeringModel,
      jsonParse = (\<lambda>s. Inl (JsError ''Unexpected token'')),
      jsonStringify = stringifyResults, dateNow = (\<lambda>w. w)\<rparr>"

text \<open>
  A second runtime, whose conversation model answers with the content of the last
  message it was handed and moves the world on by one.
\<close>

definition echoingModel ::
  "Message list \<Rightarrow> nat \<Rightarrow> (js_error + ChatCompletionResponse) \<times> nat" where
  "echoingModel messages w =
     (Inr \<lparr>messageContent = (case rev messages of [] \<Rightarrow> [] | m # _ \<Rightarrow> content m),
           tool_calls = None\<rparr>, Suc w)"

definition echoRuntime :: "FunctionToolCall list \<Rightarrow> nat Runtime" where
  "echoRuntime toolCalls = (exampleRuntime toolCalls)\<lparr>conversationChat := echoingModel\<rparr>"

text \<open>
  The context message for the single failed result of the unknown tool \<open>playMusic\<close>,
  as \<^verbatim>\<open>JSON.stringify\<close> prints it.
\<close>

definition failureContext :: string where
  "failureContext =
     ''Tool executed successfully: [{'' @ [CHR 0x22] @ ''success'' @ [CHR 0x22] @ '':false,'' @
     [CHR 0x22] @ ''error'' @ [CHR 0x22] @ '':'' @ [CHR 0x22] @ ''Unknown tool: playMusic'' @
     [CHR 0x22] @ ''}]. Generate a natural, personality-driven response about what was done.''"

definition blueCall :: FunctionToolCall where
  "blueCall =
     \<lparr>functionName = ''changeBackgroundColor'',
      functionArguments = ArgumentsValue (JObj [(''color'', JStr ''blue'')])\<rparr>"

definition musicCall :: FunctionToolCall where
  "musicCall =
     \<lparr>functionName = ''playMusic'',
      functionArguments = ArgumentsValue (JObj [(''song'', JStr ''jazz'')])\<rparr>"

text \<open>
  The retention the specification words: of all turns so far, the most recent \<open>B\<close>
  pairs, in their original order.
\<close>

definition retainedBySpec :: "nat \<Rightarrow> 'a list \<Rightarrow> 'a list" where
  "retainedBySpec B turns = drop (length turns - 2 * B) turns"

section \<open>Invariants of a connection\<close>

text \<open>
  In every state that a connection reaches, the promises named by the map, by the calls
  of \<open>resolve\<close> and \<open>reject\<close>, and by the timers have been created, and every
  armed timer is due in the future.
\<close>

definition wellFormed :: "Connection \<Rightarrow> bool" where
  "wellFormed c \<longleftrightarrow>
     (\<forall>x \<in> set (pendingToolExecutions c). snd x < promises c) \<and>
     (\<forall>x \<in> set (settled c). fst x < promises c) \<and>
     (\<forall>tm \<in> set (timers c). snd (snd tm) < promises c \<and> clock c < fst tm)"

text \<open>No emitter call among the events generates the id \<open>eid\<close> again.\<close>

fun idNotReused :: "string \<Rightarrow> event list \<Rightarrow> Connection \<Rightarrow> bool" where
  "idNotReused eid [] c = True"
| "idNotReused eid (e # es) c =
     ((case e of EmitterCall _ _ \<Rightarrow> newExecutionId c \<noteq> eid | _ \<Rightarrow> True) \<and>
      idNotReused eid es (step e c))"

text \<open>No tool result among the events carries the id \<open>eid\<close>.\<close>

fun noResultFor :: "string \<Rightarrow> event list \<Rightarrow> bool" where
  "noResultFor eid [] = True"
| "noResultFor eid (e # es) =
     ((case e of ToolResult data \<Rightarrow> executionId data \<noteq> eid | _ \<Rightarrow> True) \<and>
      noResultFor eid es)"

text \<open>
  The execution \<open>eid\<close> with promise \<open>p\<close> and deadline \<open>due\<close> owns its id: the
  timers of the id are the timers of the promise, the entry of the id is the entry of
  the promise, and the promise was settled once if the entry is gone and not at all if
  it is there.
\<close>

definition tracked :: "string \<Rightarrow> nat \<Rightarrow> nat \<Rightarrow> Connection \<Rightarrow> bool" where
  "tracked eid p due c \<longleftrightarrow>
     p < promises c \<and>
     (\<forall>tm \<in> set (timers c). (fst (snd tm) = eid) = (snd (snd tm) = p)) \<and>
     (\<forall>tm \<in> set (timers c). snd (snd tm) = p \<longrightarrow> fst tm = due) \<and>
     (\<forall>k q. map_of (pendingToolExecutions c) k = Some q \<longrightarrow> (k = eid) = (q = p)) \<and>
     (if map_of (pendingToolExecutions c) eid = None
      then settleCount c p = 1
      else settleCount c p = 0)"

definition armedWhilePending :: "string \<Rightarrow> nat \<Rightarrow> nat \<Rightarrow> Connection \<Rightarrow> bool" where
  "armedWhilePending eid p due c \<longleftrightarrow>
     (map_of (pendingToolExecutions c) eid \<noteq> None \<longrightarrow> (due, eid, p) \<in> set (timers c))"

text \<open>
  As long as no tool result arrives for the id: the promise is settled by its timer
  only, and the entry goes when the timer goes.
\<close>

definition silent :: "string \<Rightarrow> nat \<Rightarrow> nat \<Rightarrow> Connection \<Rightarrow> bool" where
  "silent eid p due c \<longleftrightarrow>
     (\<forall>x \<in> set (settled c). fst x = p \<longrightarrow> snd x = Reject (JsError ''Tool execution timeout'')) \<and>
     ((due, eid, p) \<in> set (timers c) \<or> due \<le> clock c) \<and>
     (map_of (pendingToolExecutions c) eid = None \<longrightarrow> (due, eid, p) \<notin> set (timers c))"

text \<open>Reading a decimal numeral back.\<close>

definition digitValue :: "char \<Rightarrow> nat" where
  "digitValue ch = of_char ch - 48"

definition numberOf :: "string \<Rightarrow> nat" where
  "numberOf s = fold (\<lambda>ch acc. 10 * acc + digitValue ch) s 0"

section \<open>Evaluation rules\<close>

lemmas registry_defs = executeTool_def executeChangeBackgroundColor_def acceptingEmitter_def
  rejectingEmitter_def caught_def toLowerCase_def toLowerCaseChar_def isUpper_def
  startsWithHash_def
  colorMapGet_def colorMap_def objectPrototypeMembers_def

lemmas connection_defs = run_def connected_def toolEmitter_def newExecutionId_def
  onToolResult_def timePasses_def timeoutFired_def isDue_def onDisconnect_def settleCount_def
  promiseState_def Let_def

lemmas agent_defs = processMessage_def toolBranch_def conversationBranch_def addToHistory_def
  buildMessagesArray_def exampleRuntime_def askingRouter_def answeringModel_def toolArgs_def
  newVoiceAgent_def sliceFromEnd_def Let_def

lemma decimal_1000: "decimal 1000 = ''1000''"
  by (simp add: decimal.simps digit_def)

section \<open>The registry\<close>

lemma executeChangeBackgroundColor_not_Rejected:
  "fst (executeChangeBackgroundColor reg params w) \<noteq> Rejected e"
  by (auto simp: executeChangeBackgroundColor_def Let_def
           split: option.splits sum.splits prod.splits outcome.splits)

text \<open>
  C7.  A tool call whose name is not \<open>changeBackgroundColor\<close> gets the failure result
  \<open>Unknown tool: name\<close> at once: the emitter is not invoked and the world is untouched.
  For every input, awaiting \<open>executeTool\<close> never throws.  Every error of the local
  execution is caught and turned into a result with \<open>success = False\<close> that carries
  its message: a TypeError from reading the colour, and a rejection by the emitter.
\<close>

theorem executeTool_unknown_fails_and_never_throws:
  "(name toolCall \<noteq> ''changeBackgroundColor'' \<longrightarrow>
      executeTool reg toolCall w =
        (Fulfilled \<lparr>success = False, result = JUndefined,
                    error = Some (''Unknown tool: '' @ name toolCall)\<rparr>, [], w))
   \<and> (\<forall>e. fst (executeTool reg toolCall w) \<noteq> Rejected e)
   \<and> (\<forall>emitter e.
         name toolCall = ''changeBackgroundColor'' \<and>
         frontendToolEmitter reg = Some emitter \<and>
         (parametersColor (parameters toolCall) = Inl e \<or>
          (\<exists>color. parametersColor (parameters toolCall) = Inr color \<and>
                    colorToHex color = Inl e))
         \<longrightarrow> executeTool reg toolCall w = (Fulfilled (caught e), [], w) \<and> \<not> success (caught e))
   \<and> (\<forall>emitter color hexColor e w'.
         name toolCall = ''changeBackgroundColor'' \<and>
         frontendToolEmitter reg = Some emitter \<and>
         parametersColor (parameters toolCall) = Inr color \<and>
         colorToHex color = Inr hexColor \<and>
         emitter ''changeBackgroundColor'' (JObj [(''color'', hexColor)]) w = (Rejected e, w')
         \<longrightarrow> fst (executeTool reg toolCall w) = Fulfilled (caught e) \<and> \<not> success (caught e))"
proof (intro conjI allI impI)
  assume "name toolCall \<noteq> ''changeBackgroundColor''"
  then show "executeTool reg toolCall w =
        (Fulfilled \<lparr>success = False, result = JUndefined,
                    error = Some (''Unknown tool: '' @ name toolCall)\<rparr>, [], w)"
    by (simp add: executeTool_def)
next
  fix e
  show "fst (executeTool reg toolCall w) \<noteq> Rejected e"
    by (simp add: executeTool_def executeChangeBackgroundColor_not_Rejected)
next
  fix emitter e
  assume "name toolCall = ''changeBackgroundColor'' \<and>
         frontendToolEmitter reg = Some emitter \<and>
         (parametersColor (parameters toolCall) = Inl e \<or>
          (\<exists>color. parametersColor (parameters toolCall) = Inr color \<and>
                    colorToHex color = Inl e))"
  then show "executeTool reg toolCall w = (Fulfilled (caught e), [], w)"
    by (auto simp: executeTool_def executeChangeBackgroundColor_def)
next
  fix emitter e
  show "\<not> success (caught e)" by (simp add: caught_def)
next
  fix emitter color hexColor e w'
  assume "name toolCall = ''changeBackgroundColor'' \<and>
         frontendToolEmitter reg = Some emitter \<and>
         parametersColor (parameters toolCall) = Inr color \<and>
         colorToHex color = Inr hexColor \<and>
         emitter ''changeBackgroundColor'' (JObj [(''color'', hexColor)]) w = (Rejected e, w')"
  then show "fst (executeTool reg toolCall w) = Fulfilled (caught e)"
    by (simp add: executeTool_def executeChangeBackgroundColor_def)
next
  fix emitter color hexColor e w'
  show "\<not> success (caught e)" by (simp add: caught_def)
qed

lemma colorToHex_blue: "colorToHex (JStr ''blue'') = Inr (JStr ''#0000FF'')"
  by (simp add: toLowerCase_def toLowerCaseChar_def isUpper_def startsWithHash_def
        colorMapGet_def colorMap_def)

text \<open>
  C7, at concrete inputs: the unknown tool \<open>playMusic\<close>, a \<open>changeBackgroundColor\<close>
  call whose arguments are \<open>null\<close>, and one whose emitter rejects with the timeout error.
\<close>

theorem executeTool_unknown_fails_and_never_throws_witness:
  "executeTool \<lparr>frontendToolEmitter = Some rejectingEmitter\<rparr>
     \<lparr>name = ''playMusic'', parameters = JObj [(''song'', JStr ''jazz'')]\<rparr> 0 =
     (Fulfilled \<lparr>success = False, result = JUndefined,
                 error = Some ''Unknown tool: playMusic''\<rparr>, [], 0)
   \<and> executeTool \<lparr>frontendToolEmitter = Some rejectingEmitter\<rparr>
       \<lparr>name = ''changeBackgroundColor'', parameters = JNull\<rparr> 0 =
     (Fulfilled \<lparr>success = False, result = JUndefined,
                 error = Some ''Cannot read properties of null (reading 'color')''\<rparr>, [], 0)
   \<and> fst (executeTool \<lparr>frontendToolEmitter = Some rejectingEmitter\<rparr>
            \<lparr>name = ''changeBackgroundColor'',
             parameters = JObj [(''color'', JStr ''blue'')]\<rparr> 0) =
     Fulfilled \<lparr>success = False, result = JUndefined,
                error = Some ''Tool execution timeout''\<rparr>"
proof (intro conjI)
  show "executeTool \<lparr>frontendToolEmitter = Some rejectingEmitter\<rparr>
     \<lparr>name = ''playMusic'', parameters = JObj [(''song'', JStr ''jazz'')]\<rparr> 0 =
     (Fulfilled \<lparr>success = False, result = JUndefined,
                 error = Some ''Unknown tool: playMusic''\<rparr>, [], 0)"
    using executeTool_unknown_fails_and_never_throws
      [of "\<lparr>name = ''playMusic'', parameters = JObj [(''song'', JStr ''jazz'')]\<rparr>"
          "\<lparr>frontendToolEmitter = Some rejectingEmitter\<rparr>" 0]
    by simp
next
  let ?e = "JsError ''Cannot read properties of null (reading 'color')''"
  have "name \<lparr>name = ''changeBackgroundColor'', parameters = JNull\<rparr> = ''changeBackgroundColor'' \<and>
        frontendToolEmitter \<lparr>frontendToolEmitter = Some rejectingEmitter\<rparr> = Some rejectingEmitter \<and>
        (parametersColor (parameters \<lparr>name = ''changeBackgroundColor'', parameters = JNull\<rparr>) = Inl ?e
         \<or> (\<exists>color. parametersColor (parameters \<lparr>name = ''changeBackgroundColor'',
                         parameters = JNull\<rparr>) = Inr color \<and> colorToHex color = Inl ?e))"
    by simp
  with executeTool_unknown_fails_and_never_throws
      [of "\<lparr>name = ''changeBackgroundColor'', parameters = JNull\<rparr>"
              "\<lparr>frontendToolEmitter = Some rejectingEmitter\<rparr>" 0]
  have "executeTool \<lparr>frontendToolEmitter = Some rejectingEmitter\<rparr>
          \<lparr>name = ''changeBackgroundColor'', parameters = JNull\<rparr> 0 = (Fulfilled (caught ?e), [], 0)"
    by blast
  then show "executeTool \<lparr>frontendToolEmitter = Some rejectingEmitter\<rparr>
       \<lparr>name = ''changeBackgroundColor'', parameters = JNull\<rparr> 0 =
     (Fulfilled \<lparr>success = False, result = JUndefined,
                 error = Some ''Cannot read properties of null (reading 'color')''\<rparr>, [], 0)"
    by (simp add: caught_def)
next
  let ?e = "JsError ''Tool execution timeout''"
  have "name \<lparr>name = ''changeBackgroundColor'', parameters = JObj [(''color'', JStr ''blue'')]\<rparr>
          = ''changeBackgroundColor'' \<and>
        frontendToolEmitter \<lparr>frontendToolEmitter = Some rejectingEmitter\<rparr> = Some rejectingEmitter \<and>
        parametersColor (parameters \<lparr>name = ''changeBackgroundColor'',
          parameters = JObj [(''color'', JStr ''blue'')]\<rparr>) = Inr (JStr ''blue'') \<and>
        colorToHex (JStr ''blue'') = Inr (JStr ''#0000FF'') \<and>
        rejectingEmitter ''changeBackgroundColor'' (JObj [(''color'', JStr ''#0000FF'')]) 0 =
          (Rejected ?e, Suc 0)"
    by (simp add: colorToHex_blue rejectingEmitter_def del: colorToHex.simps)
  with executeTool_unknown_fails_and_never_throws
      [of "\<lparr>name = ''changeBackgroundColor'', parameters = JObj [(''color'', JStr ''blue'')]\<rparr>"
              "\<lparr>frontendToolEmitter = Some rejectingEmitter\<rparr>" 0]
  have "fst (executeTool \<lparr>frontendToolEmitter = Some rejectingEmitter\<rparr>
               \<lparr>name = ''changeBackgroundColor'',
                parameters = JObj [(''color'', JStr ''blue'')]\<rparr> 0) = Fulfilled (caught ?e)"
    by blast
  then show "fst (executeTool \<lparr>frontendToolEmitter = Some rejectingEmitter\<rparr>
            \<lparr>name = ''changeBackgroundColor'',
             parameters = JObj [(''color'', JStr ''blue'')]\<rparr> 0) =
     Fulfilled \<lparr>success = False, result = JUndefined,
                error = Some ''Tool execution timeout''\<rparr>"
    by (simp add: caught_def)
qed

lemma invalid_args_throw:
  "\<not> changeBackgroundColorArgsValid params \<Longrightarrow>
     (\<exists>e. parametersColor params = Inl e) \<or>
     (\<exists>color e. parametersColor params = Inr color \<and> colorToHex color = Inl e)"
  by (cases params) (auto split: option.splits jsval.splits)

text \<open>
  C8.  When the arguments of a \<open>changeBackgroundColor\<close> call do not fit the schema
  (no object, no property \<open>color\<close>, or a \<open>color\<close> that is not a string), the registry
  returns a result with \<open>success = False\<close> and the emitter is never invoked, whether
  an emitter is configured or not.
\<close>

theorem invalid_arguments_fail_before_dispatch:
  "\<not> changeBackgroundColorArgsValid params \<Longrightarrow>
     \<exists>r. executeTool reg \<lparr>name = ''changeBackgroundColor'', parameters = params\<rparr> w =
            (Fulfilled r, [], w) \<and> \<not> success r"
  using invalid_args_throw[of params]
  by (auto simp: executeTool_def executeChangeBackgroundColor_def caught_def split: option.splits)

text \<open>
  C8, at concrete inputs: arguments without the property \<open>color\<close>, and arguments whose
  \<open>color\<close> is a number.
\<close>

theorem invalid_arguments_fail_before_dispatch_witness:
  "\<not> changeBackgroundColorArgsValid (JObj [(''colour'', JStr ''blue'')])
   \<and> \<not> changeBackgroundColorArgsValid (JObj [(''color'', JNum 255)])
   \<and> (\<exists>r. executeTool \<lparr>frontendToolEmitter = Some acceptingEmitter\<rparr>
            \<lparr>name = ''changeBackgroundColor'', parameters = JObj [(''colour'', JStr ''blue'')]\<rparr> 0 =
            (Fulfilled r, [], 0) \<and> \<not> success r)
   \<and> (\<exists>r. executeTool \<lparr>frontendToolEmitter = Some acceptingEmitter\<rparr>
            \<lparr>name = ''changeBackgroundColor'', parameters = JObj [(''color'', JNum 255)]\<rparr> 0 =
            (Fulfilled r, [], 0) \<and> \<not> success r)"
proof -
  have a: "\<not> changeBackgroundColorArgsValid (JObj [(''colour'', JStr ''blue'')])" by simp
  have b: "\<not> changeBackgroundColorArgsValid (JObj [(''color'', JNum 255)])" by simp
  show ?thesis
    using a b
      invalid_arguments_fail_before_dispatch
        [OF a, of "\<lparr>frontendToolEmitter = Some acceptingEmitter\<rparr>" 0]
      invalid_arguments_fail_before_dispatch
        [OF b, of "\<lparr>frontendToolEmitter = Some acceptingEmitter\<rparr>" 0]
    by blast
qed

text \<open>
  What \<open>colorToHex\<close> returns for a string.  A lowercase form has no capital letter,
  so of the inherited members only \<open>constructor\<close> and \<open>__proto__\<close> can be hit.
\<close>

lemma toLowerCaseChar_not_upper: "\<not> isUpper (toLowerCaseChar c)"
  by (auto simp: isUpper_def toLowerCaseChar_def Let_def)

lemma toLowerCase_no_upper: "ch \<in> set (toLowerCase s) \<Longrightarrow> \<not> isUpper ch"
  by (auto simp: toLowerCase_def toLowerCaseChar_not_upper)

lemma toLowerCase_neq:
  assumes "ch \<in> set k" and "isUpper ch"
  shows "toLowerCase s \<noteq> k"
  using assms toLowerCase_no_upper by blast

lemma inherited_lower_keys:
  "map_of objectPrototypeMembers (toLowerCase s) =
     (if toLowerCase s = ''constructor'' then Some (JFunction ''Object'')
      else if toLowerCase s = ''__proto__'' then Some JObjectPrototype
      else None)"
proof -
  have "toLowerCase s \<noteq> ''__defineGetter__''"
    by (rule toLowerCase_neq[of "CHR ''G''"]) (simp_all add: isUpper_def)
  moreover have "toLowerCase s \<noteq> ''__defineSetter__''"
    by (rule toLowerCase_neq[of "CHR ''S''"]) (simp_all add: isUpper_def)
  moreover have "toLowerCase s \<noteq> ''hasOwnProperty''"
    by (rule toLowerCase_neq[of "CHR ''O''"]) (simp_all add: isUpper_def)
  moreover have "toLowerCase s \<noteq> ''__lookupGetter__''"
    by (rule toLowerCase_neq[of "CHR ''G''"]) (simp_all add: isUpper_def)
  moreover have "toLowerCase s \<noteq> ''__lookupSetter__''"
    by (rule toLowerCase_neq[of "CHR ''S''"]) (simp_all add: isUpper_def)
  moreover have "toLowerCase s \<noteq> ''isPrototypeOf''"
    by (rule toLowerCase_neq[of "CHR ''P''"]) (simp_all add: isUpper_def)
  moreover have "toLowerCase s \<noteq> ''propertyIsEnumerable''"
    by (rule toLowerCase_neq[of "CHR ''I''"]) (simp_all add: isUpper_def)
  moreover have "toLowerCase s \<noteq> ''toString''"
    by (rule toLowerCase_neq[of "CHR ''S''"]) (simp_all add: isUpper_def)
  moreover have "toLowerCase s \<noteq> ''valueOf''"
    by (rule toLowerCase_neq[of "CHR ''O''"]) (simp_all add: isUpper_def)
  moreover have "toLowerCase s \<noteq> ''toLocaleString''"
    by (rule toLowerCase_neq[of "CHR ''L''"]) (simp_all add: isUpper_def)
  ultimately show ?thesis
    by (simp add: objectPrototypeMembers_def)
qed

lemma colorMap_values:
  "map_of colorMap k = Some hex \<Longrightarrow> startsWithHash hex"
  by (auto simp: colorMap_def startsWithHash_def split: if_splits)

lemma colorToHex_string:
  "colorToHex (JStr color) =
     Inr (if startsWithHash color then JStr color
          else case map_of colorMap (toLowerCase color) of
                 Some hex \<Rightarrow> JStr hex
               | None \<Rightarrow>
                   if toLowerCase color = ''constructor'' then JFunction ''Object''
                   else if toLowerCase color = ''__proto__'' then JObjectPrototype
                   else JStr color)"
proof (cases "map_of colorMap (toLowerCase color)")
  case None
  then show ?thesis
    by (simp add: colorMapGet_def inherited_lower_keys Let_def)
next
  case (Some hex)
  then have "hex \<noteq> []"
    using colorMap_values[OF Some] by (auto simp: startsWithHash_def)
  with Some show ?thesis
    by (simp add: colorMapGet_def Let_def)
qed

lemma mapped_name_never_sent_raw:
  assumes "\<not> startsWithHash color" and "map_of colorMap (toLowerCase color) = Some hex"
  shows "colorToHex (JStr color) = Inr (JStr hex) \<and> hex \<noteq> color"
  using assms colorMap_values[OF assms(2)]
  by (auto simp: colorToHex_string simp del: colorToHex.simps)

text \<open>
  C10, at the colour string \<open>constructor\<close>: it does not start with \<open>#\<close> and is none of
  the fourteen names, yet it is not passed through.  The lookup in the object literal
  finds the inherited member \<^verbatim>\<open>Object.prototype.constructor\<close>, which is truthy, so
  \<open>colorToHex\<close> returns the function \<^verbatim>\<open>Object\<close> and that is what the emitter gets
  as \<open>color\<close>.
\<close>

theorem colorToHex_returns_inherited_member:
  "colorToHex (JStr ''constructor'') = Inr (JFunction ''Object'')
   \<and> executeTool \<lparr>frontendToolEmitter = Some acceptingEmitter\<rparr>
       \<lparr>name = ''changeBackgroundColor'',
        parameters = JObj [(''color'', JStr ''constructor'')]\<rparr> 0 =
     (Fulfilled \<lparr>success = True, result = JObj [(''message'', JStr ''Background changed'')],
                 error = None\<rparr>,
      [(''changeBackgroundColor'', JObj [(''color'', JFunction ''Object'')])], 1)"
  by (simp add: registry_defs)

section \<open>Delegated executions\<close>

text \<open>
  C2, where the id generator repeats itself.  Right after a call the generator, asked
  again within the same millisecond, yields the id that the call has just stored: the
  new id is present in the map.  On the connection \<open>abc\<close> at time 1000, two calls
  leave one entry, which belongs to the second promise, and both requests emitted to the
  peer carry the id \<open>abc-1000\<close>.
\<close>

theorem execution_id_repeats_within_millisecond:
  "map_of (pendingToolExecutions (snd (toolEmitter toolName params c)))
     (newExecutionId (snd (toolEmitter toolName params c))) = Some (promises c)
   \<and> pendingToolExecutions
       (run [EmitterCall ''changeBackgroundColor'' (JObj [(''color'', JStr ''#0000FF'')]),
             EmitterCall ''changeBackgroundColor'' (JObj [(''color'', JStr ''#FF0000'')])]
          (connected ''abc'' 1000)) = [(''abc-1000'', 1)]
   \<and> map fst (emitted
       (run [EmitterCall ''changeBackgroundColor'' (JObj [(''color'', JStr ''#0000FF'')]),
             EmitterCall ''changeBackgroundColor'' (JObj [(''color'', JStr ''#FF0000'')])]
          (connected ''abc'' 1000))) = [''abc-1000'', ''abc-1000'']"
  by (simp add: connection_defs decimal_1000 update_conv')

text \<open>
  The ids of one connection differ as soon as the clock differs, so an id is repeated
  within one millisecond only.
\<close>

lemma digitValue_digit: "d < 10 \<Longrightarrow> digitValue (digit d) = d"
proof -
  assume "d < 10"
  then have "d = 0 \<or> d = 1 \<or> d = 2 \<or> d = 3 \<or> d = 4 \<or> d = 5 \<or> d = 6 \<or> d = 7
    \<or> d = 8 \<or> d = 9" by arith
  then show ?thesis
    by (elim disjE) (simp_all add: digit_def digitValue_def)
qed

lemma numberOf_decimal: "numberOf (decimal n) = n"
proof (induction n rule: decimal.induct)
  case (1 n)
  show ?case
  proof (cases "n < 10")
    case True
    then show ?thesis
      by (subst decimal.simps) (simp add: numberOf_def digitValue_digit)
  next
    case False
    with 1 have "numberOf (decimal (n div 10)) = n div 10" by simp
    with False show ?thesis
      by (subst decimal.simps) (simp add: numberOf_def digitValue_digit)
  qed
qed

lemma decimal_inj: "decimal m = decimal n \<Longrightarrow> m = n"
  by (metis numberOf_decimal)

lemma ids_differ_across_milliseconds:
  "socketId c = socketId c' \<Longrightarrow> clock c \<noteq> clock c' \<Longrightarrow> newExecutionId c \<noteq> newExecutionId c'"
  by (auto simp: newExecutionId_def dest: decimal_inj)

text \<open>Well-formedness holds initially and after every event.\<close>

lemma set_update_subset: "set (AList.update k v al) \<subseteq> insert (k, v) (set al)"
  by (induction al) auto

lemma set_delete_subset: "set (AList.delete k al) \<subseteq> set al"
  by (induction al) auto

lemma wellFormed_connected: "wellFormed (connected sid t)"
  by (simp add: wellFormed_def connected_def)

lemma wellFormed_toolEmitter:
  assumes "wellFormed c"
  shows "wellFormed (snd (toolEmitter toolName params c))"
proof -
  have "\<forall>x \<in> set (AList.update (newExecutionId c) (promises c) (pendingToolExecutions c)).
          snd x < Suc (promises c)"
    using assms set_update_subset[of "newExecutionId c" "promises c" "pendingToolExecutions c"]
    by (fastforce simp: wellFormed_def)
  then show ?thesis
    using assms by (auto simp: wellFormed_def toolEmitter_def Let_def less_Suc_eq)
qed

lemma wellFormed_timeoutFired:
  assumes "wellFormed c" and "q < promises c"
  shows "wellFormed (timeoutFired (k, q) c)"
  using assms set_delete_subset[of k "pendingToolExecutions c"]
  by (auto simp: wellFormed_def timeoutFired_def)

lemma promises_timeoutFired [simp]: "promises (timeoutFired t c) = promises c"
  by (cases t) (simp add: timeoutFired_def)

lemma timers_timeoutFired [simp]: "timers (timeoutFired t c) = timers c"
  by (cases t) (simp add: timeoutFired_def)

lemma clock_timeoutFired [simp]: "clock (timeoutFired t c) = clock c"
  by (cases t) (simp add: timeoutFired_def)

lemma wellFormed_fold_timeoutFired:
  "wellFormed c \<Longrightarrow> \<forall>t \<in> set ts. snd t < promises c \<Longrightarrow> wellFormed (fold timeoutFired ts c)"
proof (induction ts arbitrary: c)
  case Nil
  then show ?case by simp
next
  case (Cons t ts)
  obtain k q where t: "t = (k, q)" by (cases t)
  have "wellFormed (timeoutFired t c)"
    using Cons.prems t by (simp add: wellFormed_timeoutFired)
  moreover have "\<forall>t' \<in> set ts. snd t' < promises (timeoutFired t c)"
    using Cons.prems by simp
  ultimately show ?case using Cons.IH by simp
qed

lemma wellFormed_timePasses:
  assumes "wellFormed c"
  shows "wellFormed (timePasses t c)"
proof -
  let ?now = "max (clock c) t"
  let ?c' = "c\<lparr>clock := ?now, timers := filter (\<lambda>tm. \<not> isDue ?now tm) (timers c)\<rparr>"
  have "wellFormed ?c'"
    using assms by (auto simp: wellFormed_def isDue_def)
  moreover have "\<forall>x \<in> set (map snd (filter (isDue ?now) (timers c))). snd x < promises ?c'"
    using assms by (auto simp: wellFormed_def)
  ultimately show ?thesis
    unfolding timePasses_def Let_def by (rule wellFormed_fold_timeoutFired)
qed

lemma wellFormed_onToolResult:
  assumes "wellFormed c"
  shows "wellFormed (onToolResult data c)"
proof (cases "map_of (pendingToolExecutions c) (executionId data)")
  case None
  then show ?thesis using assms by (simp add: onToolResult_def)
next
  case (Some q)
  then have "(executionId data, q) \<in> set (pendingToolExecutions c)"
    by (rule map_of_SomeD)
  then have "q < promises c" using assms by (auto simp: wellFormed_def)
  then show ?thesis
    using assms Some set_delete_subset[of "executionId data" "pendingToolExecutions c"]
    by (auto simp: wellFormed_def onToolResult_def)
qed

lemma wellFormed_step: "wellFormed c \<Longrightarrow> wellFormed (step e c)"
  by (cases e)
     (simp_all add: wellFormed_toolEmitter wellFormed_onToolResult wellFormed_timePasses
        onDisconnect_def)

lemma wellFormed_run: "wellFormed c \<Longrightarrow> wellFormed (run es c)"
  unfolding run_def by (induction es arbitrary: c) (simp_all add: wellFormed_step)

text \<open>
  An execution whose id is generated once is settled at most once, and exactly once
  when its deadline has passed.
\<close>

lemma settleCount_append:
  "settleCount (c\<lparr>settled := settled c @ [(q, s)]\<rparr>) p = settleCount c p + (if q = p then 1 else 0)"
  by (simp add: settleCount_def)

lemma tracked_toolEmitter_new:
  assumes wf: "wellFormed c"
      and fresh: "\<forall>tm \<in> set (timers c). fst (snd tm) \<noteq> newExecutionId c"
  shows "tracked (newExecutionId c) (promises c) (clock c + 10000)
           (snd (toolEmitter toolName params c))"
proof -
  have pend: "\<And>k q. map_of (pendingToolExecutions c) k = Some q \<Longrightarrow> q \<noteq> promises c"
    using wf by (fastforce simp: wellFormed_def dest: map_of_SomeD)
  have tm: "\<And>tm. tm \<in> set (timers c) \<Longrightarrow> snd (snd tm) \<noteq> promises c"
    using wf by (fastforce simp: wellFormed_def)
  have "filter (\<lambda>x. fst x = promises c) (settled c) = []"
    using wf by (fastforce simp: wellFormed_def filter_empty_conv)
  then have cnt: "settleCount c (promises c) = 0"
    by (simp add: settleCount_def)
  show ?thesis
    using pend tm cnt fresh
    by (auto simp: tracked_def toolEmitter_def Let_def update_conv' settleCount_def)
qed

lemma tracked_toolEmitter_other:
  assumes "tracked eid p due c" and "newExecutionId c \<noteq> eid"
  shows "tracked eid p due (snd (toolEmitter toolName params c))"
  using assms
  by (auto simp: tracked_def toolEmitter_def Let_def update_conv' settleCount_def)

lemma tracked_timeoutFired:
  assumes "tracked eid p due c" and "(k = eid) = (q = p)"
  shows "tracked eid p due (timeoutFired (k, q) c)"
  using assms
  by (auto simp: tracked_def timeoutFired_def delete_conv' settleCount_def split: if_splits)

lemma tracked_onToolResult:
  assumes "tracked eid p due c"
  shows "tracked eid p due (onToolResult data c)"
proof (cases "map_of (pendingToolExecutions c) (executionId data)")
  case None
  then show ?thesis using assms by (simp add: onToolResult_def)
next
  case (Some q)
  with assms have "(executionId data = eid) = (q = p)"
    by (simp add: tracked_def)
  with assms Some show ?thesis
    by (auto simp: tracked_def onToolResult_def delete_conv' settleCount_def split: if_splits)
qed

lemma armed_toolEmitter_new:
  "armedWhilePending (newExecutionId c) (promises c) (clock c + 10000)
     (snd (toolEmitter toolName params c))"
  by (simp add: armedWhilePending_def toolEmitter_def Let_def)

lemma armed_toolEmitter_other:
  assumes "armedWhilePending eid p due c" and "newExecutionId c \<noteq> eid"
  shows "armedWhilePending eid p due (snd (toolEmitter toolName params c))"
  using assms by (auto simp: armedWhilePending_def toolEmitter_def Let_def update_conv')

lemma armed_onToolResult:
  assumes "armedWhilePending eid p due c"
  shows "armedWhilePending eid p due (onToolResult data c)"
  using assms
  by (auto simp: armedWhilePending_def onToolResult_def delete_conv' split: option.splits if_splits)

lemma pending_timeoutFired:
  "map_of (pendingToolExecutions (timeoutFired t c)) k = Some q \<Longrightarrow>
     map_of (pendingToolExecutions c) k = Some q"
  by (cases t) (auto simp: timeoutFired_def delete_conv' split: if_splits)

lemma pending_fold_timeoutFired:
  "map_of (pendingToolExecutions (fold timeoutFired ts c)) k = Some q \<Longrightarrow>
     map_of (pendingToolExecutions c) k = Some q"
  by (induction ts arbitrary: c) (auto dest: pending_timeoutFired)

lemma timers_fold_timeoutFired [simp]: "timers (fold timeoutFired ts c) = timers c"
  by (induction ts arbitrary: c) simp_all

lemma clock_fold_timeoutFired [simp]: "clock (fold timeoutFired ts c) = clock c"
  by (induction ts arbitrary: c) simp_all

lemma tracked_fold_timeoutFired:
  "tracked eid p due c \<Longrightarrow> \<forall>t \<in> set ts. (fst t = eid) = (snd t = p) \<Longrightarrow>
     tracked eid p due (fold timeoutFired ts c)"
proof (induction ts arbitrary: c)
  case Nil
  then show ?case by simp
next
  case (Cons t ts)
  obtain k q where t: "t = (k, q)" by (cases t)
  with Cons.prems have "tracked eid p due (timeoutFired t c)"
    by (simp add: tracked_timeoutFired)
  with Cons show ?case by simp
qed

lemma absent_after_own_timeout:
  "map_of (pendingToolExecutions (timeoutFired (eid, p) c)) eid = None"
  by (simp add: timeoutFired_def delete_conv')

lemma absent_after_fold:
  assumes "(eid, p) \<in> set ts"
  shows "map_of (pendingToolExecutions (fold timeoutFired ts c)) eid = None"
  using assms
proof (induction ts arbitrary: c)
  case Nil
  then show ?case by simp
next
  case (Cons t ts)
  show ?case
  proof (cases "(eid, p) \<in> set ts")
    case True
    then show ?thesis using Cons.IH by simp
  next
    case False
    with Cons.prems have t: "t = (eid, p)" by simp
    have "map_of (pendingToolExecutions (fold timeoutFired ts (timeoutFired (eid, p) c))) eid = None"
    proof (rule ccontr)
      assume "map_of (pendingToolExecutions (fold timeoutFired ts (timeoutFired (eid, p) c))) eid \<noteq> None"
      then obtain q where
        "map_of (pendingToolExecutions (fold timeoutFired ts (timeoutFired (eid, p) c))) eid = Some q"
        by blast
      then have "map_of (pendingToolExecutions (timeoutFired (eid, p) c)) eid = Some q"
        by (rule pending_fold_timeoutFired)
      then show False by (simp add: absent_after_own_timeout)
    qed
    with t show ?thesis by simp
  qed
qed

lemma tracked_timePasses:
  assumes "tracked eid p due c"
  shows "tracked eid p due (timePasses t c)"
proof -
  let ?now = "max (clock c) t"
  let ?c' = "c\<lparr>clock := ?now, timers := filter (\<lambda>tm. \<not> isDue ?now tm) (timers c)\<rparr>"
  have "tracked eid p due ?c'"
    using assms by (auto simp: tracked_def settleCount_def)
  moreover have "\<forall>x \<in> set (map snd (filter (isDue ?now) (timers c))). (fst x = eid) = (snd x = p)"
    using assms by (auto simp: tracked_def)
  ultimately show ?thesis
    unfolding timePasses_def Let_def by (rule tracked_fold_timeoutFired)
qed

lemma armed_timePasses:
  assumes "armedWhilePending eid p due c"
  shows "armedWhilePending eid p due (timePasses t c)"
  unfolding armedWhilePending_def
proof
  let ?now = "max (clock c) t"
  let ?c' = "c\<lparr>clock := ?now, timers := filter (\<lambda>tm. \<not> isDue ?now tm) (timers c)\<rparr>"
  let ?ts = "map snd (filter (isDue ?now) (timers c))"
  have tp: "timePasses t c = fold timeoutFired ?ts ?c'"
    by (simp add: timePasses_def Let_def)
  assume "map_of (pendingToolExecutions (timePasses t c)) eid \<noteq> None"
  then obtain q where q: "map_of (pendingToolExecutions (fold timeoutFired ?ts ?c')) eid = Some q"
    unfolding tp by blast
  then have "map_of (pendingToolExecutions ?c') eid = Some q"
    by (rule pending_fold_timeoutFired)
  then have "(due, eid, p) \<in> set (timers c)"
    using assms by (simp add: armedWhilePending_def)
  moreover have "\<not> isDue ?now (due, eid, p)"
  proof
    assume "isDue ?now (due, eid, p)"
    with \<open>(due, eid, p) \<in> set (timers c)\<close> have "(eid, p) \<in> set ?ts"
      by force
    then have "map_of (pendingToolExecutions (fold timeoutFired ?ts ?c')) eid = None"
      by (rule absent_after_fold)
    with q show False by simp
  qed
  ultimately show "(due, eid, p) \<in> set (timers (timePasses t c))"
    unfolding tp by simp
qed

lemma tracked_step:
  assumes "tracked eid p due c" and "idNotReused eid (e # es) c"
  shows "tracked eid p due (step e c)"
  using assms
  by (cases e)
     (simp_all add: tracked_toolEmitter_other tracked_onToolResult tracked_timePasses
        onDisconnect_def)

lemma armed_step:
  assumes "armedWhilePending eid p due c" and "idNotReused eid (e # es) c"
  shows "armedWhilePending eid p due (step e c)"
  using assms
  by (cases e)
     (simp_all add: armed_toolEmitter_other armed_onToolResult armed_timePasses onDisconnect_def)

lemma tracked_run:
  "tracked eid p due c \<Longrightarrow> armedWhilePending eid p due c \<Longrightarrow> idNotReused eid es c \<Longrightarrow>
     tracked eid p due (run es c) \<and> armedWhilePending eid p due (run es c)"
  unfolding run_def
proof (induction es arbitrary: c)
  case Nil
  then show ?case by simp
next
  case (Cons e es)
  have "tracked eid p due (step e c)" "armedWhilePending eid p due (step e c)"
    using Cons.prems by (auto intro: tracked_step armed_step)
  moreover have "idNotReused eid es (step e c)"
    using Cons.prems by simp
  ultimately show ?case using Cons.IH by simp
qed

lemma settled_exactly_once_without_id_reuse:
  assumes wf: "wellFormed c"
      and fresh: "\<forall>tm \<in> set (timers c). fst (snd tm) \<noteq> newExecutionId c"
      and later: "idNotReused (newExecutionId c) es (snd (toolEmitter toolName params c))"
  shows "settleCount (run es (snd (toolEmitter toolName params c))) (promises c) \<le> 1"
    and "clock c + 10000 \<le> clock (run es (snd (toolEmitter toolName params c))) \<Longrightarrow>
           settleCount (run es (snd (toolEmitter toolName params c))) (promises c) = 1 \<and>
           map_of (pendingToolExecutions (run es (snd (toolEmitter toolName params c))))
             (newExecutionId c) = None"
proof -
  let ?c1 = "snd (toolEmitter toolName params c)"
  let ?eid = "newExecutionId c"
  let ?p = "promises c"
  let ?due = "clock c + 10000"
  have inv: "tracked ?eid ?p ?due (run es ?c1) \<and> armedWhilePending ?eid ?p ?due (run es ?c1)"
    using tracked_toolEmitter_new[OF wf fresh] armed_toolEmitter_new later
    by (rule tracked_run)
  then show "settleCount (run es ?c1) ?p \<le> 1"
    by (auto simp: tracked_def split: if_splits)
  assume late: "?due \<le> clock (run es ?c1)"
  have "wellFormed (run es ?c1)"
    using wf by (simp add: wellFormed_toolEmitter wellFormed_run)
  then have "(?due, ?eid, ?p) \<notin> set (timers (run es ?c1))"
    using late by (fastforce simp: wellFormed_def)
  with inv have "map_of (pendingToolExecutions (run es ?c1)) ?eid = None"
    by (auto simp: armedWhilePending_def)
  with inv show "settleCount (run es ?c1) ?p = 1 \<and>
           map_of (pendingToolExecutions (run es ?c1)) ?eid = None"
    by (simp add: tracked_def)
qed

text \<open>
  An instance: the next call on the connection comes one millisecond later, the tool
  result arrives, then the deadline passes.
\<close>

lemma decimal_1001: "decimal 1001 = ''1001''"
  by (simp add: decimal.simps digit_def)

lemma id_generated_once_example:
  "settleCount
     (run [TimePasses 1001,
           EmitterCall ''changeBackgroundColor'' (JObj [(''color'', JStr ''#FF0000'')]),
           ToolResult \<lparr>success = True, result = JNull, error = None,
                       executionId = ''abc-1000''\<rparr>,
           TimePasses 12000]
        (snd (toolEmitter ''changeBackgroundColor'' (JObj [(''color'', JStr ''#0000FF'')])
                (connected ''abc'' 1000))))
     (promises (connected ''abc'' 1000)) = 1"
proof -
  let ?c = "connected ''abc'' 1000"
  let ?c1 = "snd (toolEmitter ''changeBackgroundColor'' (JObj [(''color'', JStr ''#0000FF'')]) ?c)"
  let ?es = "[TimePasses 1001,
           EmitterCall ''changeBackgroundColor'' (JObj [(''color'', JStr ''#FF0000'')]),
           ToolResult \<lparr>success = True, result = JNull, error = None,
                       executionId = ''abc-1000''\<rparr>,
           TimePasses 12000]"
  have fresh: "\<forall>tm \<in> set (timers ?c). fst (snd tm) \<noteq> newExecutionId ?c"
    by (simp add: connected_def)
  have later: "idNotReused (newExecutionId ?c) ?es ?c1"
    by (simp add: connection_defs decimal_1000 decimal_1001)
  have late: "clock ?c + 10000 \<le> clock (run ?es ?c1)"
    by (simp add: connection_defs decimal_1000 decimal_1001)
  from settled_exactly_once_without_id_reuse(2)[OF wellFormed_connected fresh later late]
  show ?thesis by simp
qed

text \<open>
  Without a tool result, such an execution is pending before its deadline and rejected
  with the timeout error once the deadline has passed.
\<close>

lemma silent_toolEmitter_new:
  assumes wf: "wellFormed c"
  shows "silent (newExecutionId c) (promises c) (clock c + 10000)
           (snd (toolEmitter toolName params c))"
proof -
  have "\<forall>x \<in> set (settled c). fst x \<noteq> promises c"
    using wf by (fastforce simp: wellFormed_def)
  then show ?thesis
    by (simp add: silent_def toolEmitter_def Let_def update_conv')
qed

lemma silent_toolEmitter_other:
  assumes "silent eid p due c" and "newExecutionId c \<noteq> eid"
  shows "silent eid p due (snd (toolEmitter toolName params c))"
  using assms by (auto simp: silent_def toolEmitter_def Let_def update_conv')

lemma silent_onToolResult:
  assumes "silent eid p due c" and "tracked eid p due c" and "executionId data \<noteq> eid"
  shows "silent eid p due (onToolResult data c)"
proof (cases "map_of (pendingToolExecutions c) (executionId data)")
  case None
  then show ?thesis using assms by (simp add: onToolResult_def)
next
  case (Some q)
  with assms have "q \<noteq> p"
    by (auto simp: tracked_def)
  with assms Some show ?thesis
    by (auto simp: silent_def onToolResult_def delete_conv')
qed

lemma pending_kept_by_timeoutFired:
  "k \<noteq> fst t \<Longrightarrow>
     map_of (pendingToolExecutions (timeoutFired t c)) k = map_of (pendingToolExecutions c) k"
  by (cases t) (auto simp: timeoutFired_def delete_conv')

lemma pending_kept_by_fold:
  "k \<notin> fst ` set ts \<Longrightarrow>
     map_of (pendingToolExecutions (fold timeoutFired ts c)) k = map_of (pendingToolExecutions c) k"
  by (induction ts arbitrary: c) (simp_all add: pending_kept_by_timeoutFired)

lemma rejections_timeoutFired:
  assumes "\<forall>x \<in> set (settled c). fst x = p \<longrightarrow> snd x = Reject (JsError ''Tool execution timeout'')"
  shows "\<forall>x \<in> set (settled (timeoutFired t c)).
           fst x = p \<longrightarrow> snd x = Reject (JsError ''Tool execution timeout'')"
  using assms by (cases t) (auto simp: timeoutFired_def)

lemma rejections_fold:
  "\<forall>x \<in> set (settled c). fst x = p \<longrightarrow> snd x = Reject (JsError ''Tool execution timeout'') \<Longrightarrow>
   \<forall>x \<in> set (settled (fold timeoutFired ts c)).
      fst x = p \<longrightarrow> snd x = Reject (JsError ''Tool execution timeout'')"
proof (induction ts arbitrary: c)
  case Nil
  then show ?case by simp
next
  case (Cons t ts)
  from rejections_timeoutFired[OF Cons.prems, of t] Cons.IH show ?case by simp
qed

lemma silent_timePasses:
  assumes s: "silent eid p due c" and tr: "tracked eid p due c"
  shows "silent eid p due (timePasses t c)"
proof -
  let ?now = "max (clock c) t"
  let ?c' = "c\<lparr>clock := ?now, timers := filter (\<lambda>tm. \<not> isDue ?now tm) (timers c)\<rparr>"
  let ?ts = "map snd (filter (isDue ?now) (timers c))"
  have tp: "timePasses t c = fold timeoutFired ?ts ?c'"
    by (simp add: timePasses_def Let_def)
  have a: "\<forall>x \<in> set (settled (timePasses t c)).
             fst x = p \<longrightarrow> snd x = Reject (JsError ''Tool execution timeout'')"
    unfolding tp using s by (intro rejections_fold) (simp add: silent_def)
  have b: "(due, eid, p) \<in> set (timers (timePasses t c)) \<or> due \<le> clock (timePasses t c)"
    unfolding tp using s by (auto simp: silent_def isDue_def)
  have c: "map_of (pendingToolExecutions (timePasses t c)) eid = None \<longrightarrow>
             (due, eid, p) \<notin> set (timers (timePasses t c))"
  proof (intro impI notI)
    assume none: "map_of (pendingToolExecutions (timePasses t c)) eid = None"
       and armed: "(due, eid, p) \<in> set (timers (timePasses t c))"
    from armed have mem: "(due, eid, p) \<in> set (timers c)" and nd: "\<not> isDue ?now (due, eid, p)"
      unfolding tp by simp_all
    from mem s have present: "map_of (pendingToolExecutions c) eid \<noteq> None"
      by (auto simp: silent_def)
    have "eid \<in> fst ` set ?ts"
    proof (rule ccontr)
      assume "eid \<notin> fst ` set ?ts"
      then have "map_of (pendingToolExecutions (fold timeoutFired ?ts ?c')) eid
                   = map_of (pendingToolExecutions ?c') eid"
        by (rule pending_kept_by_fold)
      with none present show False unfolding tp by simp
    qed
    then obtain tm where tm: "tm \<in> set (timers c)" "isDue ?now tm" "fst (snd tm) = eid"
      by auto
    with tr have "snd (snd tm) = p" "fst tm = due"
      by (auto simp: tracked_def)
    with tm have "isDue ?now (due, eid, p)"
      by (simp add: isDue_def)
    with nd show False by simp
  qed
  from a b c show ?thesis by (simp add: silent_def)
qed

lemma silent_run:
  "tracked eid p due c \<Longrightarrow> armedWhilePending eid p due c \<Longrightarrow> silent eid p due c \<Longrightarrow>
   idNotReused eid es c \<Longrightarrow> noResultFor eid es \<Longrightarrow> silent eid p due (run es c)"
proof (induction es arbitrary: c)
  case Nil
  then show ?case by (simp add: run_def)
next
  case (Cons e es)
  have t: "tracked eid p due (step e c)" and a: "armedWhilePending eid p due (step e c)"
    using Cons.prems by (auto intro: tracked_step armed_step)
  have s: "silent eid p due (step e c)"
    using Cons.prems
    by (cases e)
       (simp_all add: silent_toolEmitter_other silent_onToolResult silent_timePasses
          onDisconnect_def)
  have "silent eid p due (run es (step e c))"
    using t a s Cons.prems by (intro Cons.IH) simp_all
  then show ?case by (simp add: run_def)
qed

lemma promiseState_single:
  assumes "settleCount c p = 1"
      and "\<forall>x \<in> set (settled c). fst x = p \<longrightarrow> snd x = Reject e"
  shows "promiseState c p = Rejected e"
proof -
  from assms(1) obtain x where x: "filter (\<lambda>x. fst x = p) (settled c) = [x]"
    by (auto simp: settleCount_def length_Suc_conv)
  then have "x \<in> set (filter (\<lambda>x. fst x = p) (settled c))" by simp
  then have "fst x = p" "snd x = Reject e" using assms(2) by auto
  then have "x = (p, Reject e)" by (cases x) simp
  with x show ?thesis by (simp add: promiseState_def)
qed

lemma promiseState_none:
  assumes "settleCount c p = 0"
  shows "promiseState c p = Unsettled"
  using assms by (simp add: promiseState_def settleCount_def)

lemma timeout_rejects_without_id_reuse:
  assumes wf: "wellFormed c"
      and fresh: "\<forall>tm \<in> set (timers c). fst (snd tm) \<noteq> newExecutionId c"
      and later: "idNotReused (newExecutionId c) es (snd (toolEmitter toolName params c))"
      and quiet: "noResultFor (newExecutionId c) es"
  shows "clock (run es (snd (toolEmitter toolName params c))) < clock c + 10000 \<Longrightarrow>
           promiseState (run es (snd (toolEmitter toolName params c))) (promises c) = Unsettled \<and>
           map_of (pendingToolExecutions (run es (snd (toolEmitter toolName params c))))
             (newExecutionId c) = Some (promises c)"
    and "clock c + 10000 \<le> clock (run es (snd (toolEmitter toolName params c))) \<Longrightarrow>
           promiseState (run es (snd (toolEmitter toolName params c))) (promises c)
             = Rejected (JsError ''Tool execution timeout'') \<and>
           map_of (pendingToolExecutions (run es (snd (toolEmitter toolName params c))))
             (newExecutionId c) = None"
proof -
  let ?c1 = "snd (toolEmitter toolName params c)"
  let ?eid = "newExecutionId c"
  let ?p = "promises c"
  let ?due = "clock c + 10000"
  have t1: "tracked ?eid ?p ?due ?c1"
    by (rule tracked_toolEmitter_new[OF wf fresh])
  have a1: "armedWhilePending ?eid ?p ?due ?c1"
    by (rule armed_toolEmitter_new)
  have s1: "silent ?eid ?p ?due ?c1"
    by (rule silent_toolEmitter_new[OF wf])
  have inv: "tracked ?eid ?p ?due (run es ?c1)"
    using tracked_run[OF t1 a1 later] by simp
  have sil: "silent ?eid ?p ?due (run es ?c1)"
    by (rule silent_run[OF t1 a1 s1 later quiet])
  {
    assume early: "clock (run es ?c1) < ?due"
    with sil have "(?due, ?eid, ?p) \<in> set (timers (run es ?c1))"
      by (auto simp: silent_def)
    with sil obtain q where q: "map_of (pendingToolExecutions (run es ?c1)) ?eid = Some q"
      by (auto simp: silent_def)
    with inv have "q = ?p" "settleCount (run es ?c1) ?p = 0"
      by (auto simp: tracked_def)
    with q show "promiseState (run es ?c1) ?p = Unsettled \<and>
           map_of (pendingToolExecutions (run es ?c1)) ?eid = Some ?p"
      by (simp add: promiseState_none)
  }
  {
    assume late: "?due \<le> clock (run es ?c1)"
    from settled_exactly_once_without_id_reuse(2)[OF wf fresh later late]
    have one: "settleCount (run es ?c1) ?p = 1"
      and gone: "map_of (pendingToolExecutions (run es ?c1)) ?eid = None"
      by simp_all
    from sil have "\<forall>x \<in> set (settled (run es ?c1)).
                     fst x = ?p \<longrightarrow> snd x = Reject (JsError ''Tool execution timeout'')"
      by (simp add: silent_def)
    from promiseState_single[OF one this] gone
    show "promiseState (run es ?c1) ?p = Rejected (JsError ''Tool execution timeout'') \<and>
           map_of (pendingToolExecutions (run es ?c1)) ?eid = None"
      by simp
  }
qed

text \<open>An instance: one call, no tool result, and the deadline passes.\<close>

lemma timeout_example:
  "promiseState
     (run [TimePasses 11000]
        (snd (toolEmitter ''changeBackgroundColor'' (JObj [(''color'', JStr ''#0000FF'')])
                (connected ''abc'' 1000))))
     (promises (connected ''abc'' 1000)) = Rejected (JsError ''Tool execution timeout'')"
proof -
  let ?c = "connected ''abc'' 1000"
  let ?c1 = "snd (toolEmitter ''changeBackgroundColor'' (JObj [(''color'', JStr ''#0000FF'')]) ?c)"
  have fresh: "\<forall>tm \<in> set (timers ?c). fst (snd tm) \<noteq> newExecutionId ?c"
    by (simp add: connected_def)
  have later: "idNotReused (newExecutionId ?c) [TimePasses 11000] ?c1"
    by simp
  have quiet: "noResultFor (newExecutionId ?c) [TimePasses 11000]"
    by simp
  have late: "clock ?c + 10000 \<le> clock (run [TimePasses 11000] ?c1)"
    by (simp add: connection_defs)
  from timeout_rejects_without_id_reuse(2)[OF wellFormed_connected fresh later quiet late]
  show ?thesis by simp
qed

text \<open>
  C1, at two calls made within one millisecond.  The tool result for the shared id
  settles the second promise and removes the entry; both timers then find the id
  absent.  The first promise is still pending when no timer is left, so it is never
  settled.  With the timers first and the tool result last, the timer of the first call
  rejects the first promise and it is the second promise that is never settled.
\<close>

theorem shared_id_leaves_promise_unsettled:
  "promiseState
     (run [EmitterCall ''changeBackgroundColor'' (JObj [(''color'', JStr ''#0000FF'')]),
           EmitterCall ''changeBackgroundColor'' (JObj [(''color'', JStr ''#FF0000'')]),
           ToolResult \<lparr>success = True, result = JNull, error = None,
                       executionId = ''abc-1000''\<rparr>,
           TimePasses 11000]
        (connected ''abc'' 1000)) 0 = Unsettled
   \<and> timers
     (run [EmitterCall ''changeBackgroundColor'' (JObj [(''color'', JStr ''#0000FF'')]),
           EmitterCall ''changeBackgroundColor'' (JObj [(''color'', JStr ''#FF0000'')]),
           ToolResult \<lparr>success = True, result = JNull, error = None,
                       executionId = ''abc-1000''\<rparr>,
           TimePasses 11000]
        (connected ''abc'' 1000)) = []
   \<and> promiseState
     (run [EmitterCall ''changeBackgroundColor'' (JObj [(''color'', JStr ''#0000FF'')]),
           EmitterCall ''changeBackgroundColor'' (JObj [(''color'', JStr ''#FF0000'')]),
           TimePasses 11000,
           ToolResult \<lparr>success = True, result = JNull, error = None,
                       executionId = ''abc-1000''\<rparr>]
        (connected ''abc'' 1000)) 1 = Unsettled
   \<and> timers
     (run [EmitterCall ''changeBackgroundColor'' (JObj [(''color'', JStr ''#0000FF'')]),
           EmitterCall ''changeBackgroundColor'' (JObj [(''color'', JStr ''#FF0000'')]),
           TimePasses 11000,
           ToolResult \<lparr>success = True, result = JNull, error = None,
                       executionId = ''abc-1000''\<rparr>]
        (connected ''abc'' 1000)) = []"
  by (simp add: connection_defs decimal_1000)

text \<open>
  C3, at two calls made within one millisecond and no tool result at all.  When the
  deadline has passed, the timer of the first call removes the shared entry and rejects
  the first promise; the timer of the second call finds the id absent.  The second
  promise is not rejected, and no timer is left that could reject it.
\<close>

theorem shared_id_timeout_skips_second_call:
  "promiseState
     (run [EmitterCall ''changeBackgroundColor'' (JObj [(''color'', JStr ''#0000FF'')]),
           EmitterCall ''changeBackgroundColor'' (JObj [(''color'', JStr ''#FF0000'')]),
           TimePasses 11000]
        (connected ''abc'' 1000)) 0 = Rejected (JsError ''Tool execution timeout'')
   \<and> promiseState
     (run [EmitterCall ''changeBackgroundColor'' (JObj [(''color'', JStr ''#0000FF'')]),
           EmitterCall ''changeBackgroundColor'' (JObj [(''color'', JStr ''#FF0000'')]),
           TimePasses 11000]
        (connected ''abc'' 1000)) 1 = Unsettled
   \<and> timers
     (run [EmitterCall ''changeBackgroundColor'' (JObj [(''color'', JStr ''#0000FF'')]),
           EmitterCall ''changeBackgroundColor'' (JObj [(''color'', JStr ''#FF0000'')]),
           TimePasses 11000]
        (connected ''abc'' 1000)) = []"
  by (simp add: connection_defs decimal_1000)

text \<open>
  C4.  A tool result whose execution id is not in the map leaves the whole connection
  as it was: the map, the promises, the timers and what was emitted.  The handler has no
  throwing step on that path.
\<close>

theorem tool_result_for_absent_id_changes_nothing:
  "map_of (pendingToolExecutions c) (executionId data) = None \<Longrightarrow> onToolResult data c = c"
  by (simp add: onToolResult_def)

text \<open>
  C4, at concrete inputs: one call is outstanding under \<open>abc-1000\<close> and a result
  arrives for the unknown id \<open>abc-999\<close>; and a result for \<open>abc-1000\<close> arrives after
  its timer has fired.
\<close>

theorem tool_result_for_absent_id_changes_nothing_witness:
  "onToolResult \<lparr>success = True, result = JNull, error = None, executionId = ''abc-999''\<rparr>
     (run [EmitterCall ''changeBackgroundColor'' JNull] (connected ''abc'' 1000))
   = run [EmitterCall ''changeBackgroundColor'' JNull] (connected ''abc'' 1000)
   \<and> onToolResult \<lparr>success = True, result = JNull, error = None, executionId = ''abc-1000''\<rparr>
     (run [EmitterCall ''changeBackgroundColor'' JNull, TimePasses 11000] (connected ''abc'' 1000))
   = run [EmitterCall ''changeBackgroundColor'' JNull, TimePasses 11000] (connected ''abc'' 1000)"
proof
  have "map_of (pendingToolExecutions
          (run [EmitterCall ''changeBackgroundColor'' JNull] (connected ''abc'' 1000)))
          (executionId \<lparr>success = True, result = JNull, error = None,
                        executionId = ''abc-999''\<rparr>) = None"
    by (simp add: connection_defs decimal_1000)
  then show "onToolResult \<lparr>success = True, result = JNull, error = None, executionId = ''abc-999''\<rparr>
     (run [EmitterCall ''changeBackgroundColor'' JNull] (connected ''abc'' 1000))
   = run [EmitterCall ''changeBackgroundColor'' JNull] (connected ''abc'' 1000)"
    by (rule tool_result_for_absent_id_changes_nothing)
next
  have "map_of (pendingToolExecutions
          (run [EmitterCall ''changeBackgroundColor'' JNull, TimePasses 11000]
             (connected ''abc'' 1000)))
          (executionId \<lparr>success = True, result = JNull, error = None,
                        executionId = ''abc-1000''\<rparr>) = None"
    by (simp add: connection_defs decimal_1000)
  then show "onToolResult \<lparr>success = True, result = JNull, error = None, executionId = ''abc-1000''\<rparr>
     (run [EmitterCall ''changeBackgroundColor'' JNull, TimePasses 11000] (connected ''abc'' 1000))
   = run [EmitterCall ''changeBackgroundColor'' JNull, TimePasses 11000] (connected ''abc'' 1000)"
    by (rule tool_result_for_absent_id_changes_nothing)
qed

text \<open>
  C5 as stated fails: after a call and a disconnect, the promise of the call is not
  rejected.
\<close>

theorem disconnect_rejects_nothing:
  "\<not> (\<exists>e. promiseState
         (run [EmitterCall ''changeBackgroundColor'' (JObj [(''color'', JStr ''#0000FF'')]),
               Disconnect]
            (connected ''abc'' 1000)) 0 = Rejected e)"
  by (simp add: connection_defs decimal_1000)

text \<open>
  C5 as amended.  The disconnect handler changes nothing, in any state: the pending map,
  the calls of \<open>resolve\<close> and \<open>reject\<close> made so far, and the timers are as
  before, so no execution is rejected by the disconnect.  An execution whose id is
  generated only once and that gets no tool result is still pending, with its entry in
  the map, at every time before its deadline, whether the peer has disconnected or not;
  once the deadline of 10000 ms after the call has passed, its timer has removed the
  entry and rejected the promise with the timeout error.
\<close>

theorem disconnect_leaves_executions_to_their_timers:
  "step Disconnect c' = c'
   \<and> (wellFormed c \<and>
       (\<forall>tm \<in> set (timers c). fst (snd tm) \<noteq> newExecutionId c) \<and>
       idNotReused (newExecutionId c) (before @ Disconnect # after)
         (snd (toolEmitter toolName params c)) \<and>
       noResultFor (newExecutionId c) (before @ Disconnect # after)
       \<longrightarrow>
       (clock (run (before @ Disconnect # after) (snd (toolEmitter toolName params c)))
          < clock c + 10000 \<longrightarrow>
        promiseState (run (before @ Disconnect # after) (snd (toolEmitter toolName params c)))
          (promises c) = Unsettled \<and>
        map_of (pendingToolExecutions
          (run (before @ Disconnect # after) (snd (toolEmitter toolName params c))))
          (newExecutionId c) = Some (promises c))
       \<and>
       (clock c + 10000
          \<le> clock (run (before @ Disconnect # after) (snd (toolEmitter toolName params c))) \<longrightarrow>
        promiseState (run (before @ Disconnect # after) (snd (toolEmitter toolName params c)))
          (promises c) = Rejected (JsError ''Tool execution timeout'') \<and>
        map_of (pendingToolExecutions
          (run (before @ Disconnect # after) (snd (toolEmitter toolName params c))))
          (newExecutionId c) = None))"
proof (intro conjI impI)
  show "step Disconnect c' = c'"
    by (simp add: onDisconnect_def)
next
  assume h: "wellFormed c \<and>
       (\<forall>tm \<in> set (timers c). fst (snd tm) \<noteq> newExecutionId c) \<and>
       idNotReused (newExecutionId c) (before @ Disconnect # after)
         (snd (toolEmitter toolName params c)) \<and>
       noResultFor (newExecutionId c) (before @ Disconnect # after)"
     and early: "clock (run (before @ Disconnect # after) (snd (toolEmitter toolName params c)))
            < clock c + 10000"
  from h have wf: "wellFormed c"
    and fresh: "\<forall>tm \<in> set (timers c). fst (snd tm) \<noteq> newExecutionId c"
    and later: "idNotReused (newExecutionId c) (before @ Disconnect # after)
                  (snd (toolEmitter toolName params c))"
    and quiet: "noResultFor (newExecutionId c) (before @ Disconnect # after)"
    by simp_all
  from timeout_rejects_without_id_reuse(1)[OF wf fresh later quiet early]
  show "promiseState (run (before @ Disconnect # after) (snd (toolEmitter toolName params c)))
          (promises c) = Unsettled"
    and "map_of (pendingToolExecutions
          (run (before @ Disconnect # after) (snd (toolEmitter toolName params c))))
          (newExecutionId c) = Some (promises c)"
    by simp_all
next
  assume h: "wellFormed c \<and>
       (\<forall>tm \<in> set (timers c). fst (snd tm) \<noteq> newExecutionId c) \<and>
       idNotReused (newExecutionId c) (before @ Disconnect # after)
         (snd (toolEmitter toolName params c)) \<and>
       noResultFor (newExecutionId c) (before @ Disconnect # after)"
     and late: "clock c + 10000
            \<le> clock (run (before @ Disconnect # after) (snd (toolEmitter toolName params c)))"
  from h have wf: "wellFormed c"
    and fresh: "\<forall>tm \<in> set (timers c). fst (snd tm) \<noteq> newExecutionId c"
    and later: "idNotReused (newExecutionId c) (before @ Disconnect # after)
                  (snd (toolEmitter toolName params c))"
    and quiet: "noResultFor (newExecutionId c) (before @ Disconnect # after)"
    by simp_all
  from timeout_rejects_without_id_reuse(2)[OF wf fresh later quiet late]
  show "promiseState (run (before @ Disconnect # after) (snd (toolEmitter toolName params c)))
          (promises c) = Rejected (JsError ''Tool execution timeout'')"
    and "map_of (pendingToolExecutions
          (run (before @ Disconnect # after) (snd (toolEmitter toolName params c))))
          (newExecutionId c) = None"
    by simp_all
qed

text \<open>
  C5 as amended, at a concrete input: one call at time 1000, then the disconnect.  The
  promise is pending right after the disconnect and at time 10999, and rejected with the
  timeout error at time 11000.
\<close>

theorem disconnect_leaves_executions_to_their_timers_witness:
  "promiseState
     (run [Disconnect]
        (snd (toolEmitter ''changeBackgroundColor'' (JObj [(''color'', JStr ''#0000FF'')])
                (connected ''abc'' 1000)))) 0 = Unsettled
   \<and> map_of (pendingToolExecutions
        (run [Disconnect]
           (snd (toolEmitter ''changeBackgroundColor'' (JObj [(''color'', JStr ''#0000FF'')])
                   (connected ''abc'' 1000))))) ''abc-1000'' = Some 0
   \<and> promiseState
        (run [Disconnect, TimePasses 10999]
           (snd (toolEmitter ''changeBackgroundColor'' (JObj [(''color'', JStr ''#0000FF'')])
                   (connected ''abc'' 1000)))) 0 = Unsettled
   \<and> promiseState
        (run [Disconnect, TimePasses 11000]
           (snd (toolEmitter ''changeBackgroundColor'' (JObj [(''color'', JStr ''#0000FF'')])
                   (connected ''abc'' 1000)))) 0
       = Rejected (JsError ''Tool execution timeout'')"
proof -
  let ?c = "connected ''abc'' 1000"
  let ?c1 = "snd (toolEmitter ''changeBackgroundColor'' (JObj [(''color'', JStr ''#0000FF'')]) ?c)"
  have wf: "wellFormed ?c" by (rule wellFormed_connected)
  have fresh: "\<forall>tm \<in> set (timers ?c). fst (snd tm) \<noteq> newExecutionId ?c"
    by (simp add: connected_def)
  have eid: "newExecutionId ?c = ''abc-1000''"
    by (simp add: newExecutionId_def connected_def decimal_1000)
  have p: "promises ?c = 0" and t: "clock ?c = 1000"
    by (simp_all add: connected_def)
  have l0: "idNotReused (newExecutionId ?c) ([] @ Disconnect # []) ?c1"
   and q0: "noResultFor (newExecutionId ?c) ([] @ Disconnect # [])"
   and l1: "idNotReused (newExecutionId ?c) ([] @ Disconnect # [TimePasses 10999]) ?c1"
   and q1: "noResultFor (newExecutionId ?c) ([] @ Disconnect # [TimePasses 10999])"
   and l2: "idNotReused (newExecutionId ?c) ([] @ Disconnect # [TimePasses 11000]) ?c1"
   and q2: "noResultFor (newExecutionId ?c) ([] @ Disconnect # [TimePasses 11000])"
    by simp_all
  have c0: "clock (run ([] @ Disconnect # []) ?c1) < clock ?c + 10000"
   and c1: "clock (run ([] @ Disconnect # [TimePasses 10999]) ?c1) < clock ?c + 10000"
   and c2: "clock ?c + 10000 \<le> clock (run ([] @ Disconnect # [TimePasses 11000]) ?c1)"
    by (simp_all add: connection_defs)
  have a: "promiseState (run ([] @ Disconnect # []) ?c1) (promises ?c) = Unsettled \<and>
           map_of (pendingToolExecutions (run ([] @ Disconnect # []) ?c1)) (newExecutionId ?c)
             = Some (promises ?c)"
    using disconnect_leaves_executions_to_their_timers
            [of ?c ?c "[]" "[]" "''changeBackgroundColor''" "JObj [(''color'', JStr ''#0000FF'')]"]
          wf fresh l0 q0 c0
    by blast
  have b: "promiseState (run ([] @ Disconnect # [TimePasses 10999]) ?c1) (promises ?c) = Unsettled"
    using disconnect_leaves_executions_to_their_timers
            [of ?c ?c "[]" "[TimePasses 10999]" "''changeBackgroundColor''"
                "JObj [(''color'', JStr ''#0000FF'')]"]
          wf fresh l1 q1 c1
    by blast
  have d: "promiseState (run ([] @ Disconnect # [TimePasses 11000]) ?c1) (promises ?c)
             = Rejected (JsError ''Tool execution timeout'')"
    using disconnect_leaves_executions_to_their_timers
            [of ?c ?c "[]" "[TimePasses 11000]" "''changeBackgroundColor''"
                "JObj [(''color'', JStr ''#0000FF'')]"]
          wf fresh l2 q2 c2
    by blast
  from a b d show ?thesis
    by (simp add: eid p)
qed

section \<open>The agent\<close>

text \<open>
  C6 as stated fails on the tool branch: after three utterances that each lead to a tool
  call, with the bound of 10 pairs, the history holds the last pair only and not the
  three pairs of the conversation.
\<close>

theorem tool_branch_keeps_one_pair:
  "map content (conversationHistory (fst (processMessages (exampleRuntime [blueCall])
       \<lparr>frontendToolEmitter = Some acceptingEmitter\<rparr>
       [''blue please'', ''now red'', ''and green''] (newVoiceAgent ''You are Pixel'') 0)))
   \<noteq> retainedBySpec (maxHistoryLength (newVoiceAgent ''You are Pixel''))
        [''blue please'', ''Done'', ''now red'', ''Done'', ''and green'', ''Done'']"
  by (simp add: agent_defs registry_defs blueCall_def retainedBySpec_def)

lemma toolBranch_history:
  assumes "returned (toolBranch rt reg userInput toolCalls asked w) = Fulfilled reply"
  shows "\<exists>t. conversationHistory (agentAfter (toolBranch rt reg userInput toolCalls asked w)) =
           (let h = conversationHistory asked @
                      [\<lparr>role = Assistant, content = reply, timestamp = t\<rparr>]
            in if length h > 4 then sliceFromEnd 2 h else h)"
  using assms
  by (auto simp: toolBranch_def addToHistory_def Let_def
           split: prod.splits outcome.splits sum.splits)

text \<open>
  C6 as amended, for the tool branch.  When the router asks for at least one tool and
  \<open>processMessage\<close> returns a reply, the history afterwards is the history before with
  the user turn and the agent turn appended if that makes at most 4 turns, and otherwise
  exactly these two turns, in this order.  The bound \<open>maxHistoryLength\<close> plays no part.
\<close>

theorem tool_branch_retention:
  assumes "routerChat rt (buildMessagesArray (addToHistory User userInput (dateNow rt w) agent)) w
             = (Inr routerResponse, w')"
      and "tool_calls routerResponse = Some (toolCall # rest)"
      and "returned (processMessage rt reg userInput agent w) = Fulfilled reply"
  shows "\<exists>t. conversationHistory (agentAfter (processMessage rt reg userInput agent w)) =
           (if length (conversationHistory agent) + 2 > 4
            then [\<lparr>role = User, content = userInput, timestamp = dateNow rt w\<rparr>,
                  \<lparr>role = Assistant, content = reply, timestamp = t\<rparr>]
            else conversationHistory agent @
                 [\<lparr>role = User, content = userInput, timestamp = dateNow rt w\<rparr>,
                  \<lparr>role = Assistant, content = reply, timestamp = t\<rparr>])"
proof -
  let ?asked = "addToHistory User userInput (dateNow rt w) agent"
  have pm: "processMessage rt reg userInput agent w =
              toolBranch rt reg userInput (toolCall # rest) ?asked w'"
    using assms(1,2) by (simp add: processMessage_def Let_def)
  with assms(3)
  have "returned (toolBranch rt reg userInput (toolCall # rest) ?asked w') = Fulfilled reply"
    by simp
  from toolBranch_history[OF this] obtain t where
    h: "conversationHistory (agentAfter (toolBranch rt reg userInput (toolCall # rest) ?asked w')) =
           (let h = conversationHistory ?asked @
                      [\<lparr>role = Assistant, content = reply, timestamp = t\<rparr>]
            in if length h > 4 then sliceFromEnd 2 h else h)"
    by blast
  show ?thesis
    apply (rule exI[of _ t])
    apply (simp only: pm h)
    apply (simp add: addToHistory_def sliceFromEnd_def Let_def)
    done
qed

text \<open>
  C6 as amended, at a concrete input: a history of two pairs, and a third utterance that
  leads to a tool call.
\<close>

theorem tool_branch_retention_witness:
  "\<exists>t. conversationHistory (agentAfter (processMessage (exampleRuntime [blueCall])
            \<lparr>frontendToolEmitter = Some acceptingEmitter\<rparr> ''and green''
            \<lparr>conversationHistory =
               [\<lparr>role = User, content = ''blue please'', timestamp = 0\<rparr>,
                \<lparr>role = Assistant, content = ''Done'', timestamp = 1\<rparr>,
                \<lparr>role = User, content = ''now red'', timestamp = 1\<rparr>,
                \<lparr>role = Assistant, content = ''Done'', timestamp = 2\<rparr>],
              systemPrompt = ''You are Pixel'', maxHistoryLength = 10\<rparr> 2)) =
         [\<lparr>role = User, content = ''and green'', timestamp = 2\<rparr>,
          \<lparr>role = Assistant, content = ''Done'', timestamp = t\<rparr>]"
proof -
  let ?agent = "\<lparr>conversationHistory =
               [\<lparr>role = User, content = ''blue please'', timestamp = 0\<rparr>,
                \<lparr>role = Assistant, content = ''Done'', timestamp = 1\<rparr>,
                \<lparr>role = User, content = ''now red'', timestamp = 1\<rparr>,
                \<lparr>role = Assistant, content = ''Done'', timestamp = 2\<rparr>],
              systemPrompt = ''You are Pixel'', maxHistoryLength = 10\<rparr>"
  let ?rt = "exampleRuntime [blueCall]"
  let ?reg = "\<lparr>frontendToolEmitter = Some acceptingEmitter\<rparr>"
  have r: "routerChat ?rt
             (buildMessagesArray (addToHistory User ''and green'' (dateNow ?rt 2) ?agent)) 2
             = (Inr \<lparr>messageContent = [], tool_calls = Some [blueCall]\<rparr>, 2)"
    by (simp add: exampleRuntime_def askingRouter_def)
  have c: "tool_calls \<lparr>messageContent = [], tool_calls = Some [blueCall]\<rparr> = Some (blueCall # [])"
    by simp
  have f: "returned (processMessage ?rt ?reg ''and green'' ?agent 2) = Fulfilled ''Done''"
    by (simp add: agent_defs registry_defs blueCall_def)
  show ?thesis
    using tool_branch_retention [OF r c f]
    by (simp add: exampleRuntime_def)
qed

text \<open>
  The branch without tools applies no retention, so eleven plain turns leave 22 turns
  in the history.  \<open>trimHistory\<close> would keep what the specification words, for a
  positive bound, but \<open>processMessage\<close> does not call it.
\<close>

lemma trimHistory_retainedBySpec:
  "0 < maxHistoryLength agent \<Longrightarrow>
     conversationHistory (trimHistory agent) =
       retainedBySpec (maxHistoryLength agent) (conversationHistory agent)"
  by (simp add: trimHistory_def sliceFromEnd_def retainedBySpec_def mult.commute)

lemma conversation_branch_keeps_everything:
  assumes "routerChat rt (buildMessagesArray (addToHistory User userInput (dateNow rt w) agent)) w
             = (Inr routerResponse, w')"
      and "tool_calls routerResponse = None \<or> tool_calls routerResponse = Some []"
      and "returned (processMessage rt reg userInput agent w) = Fulfilled reply"
  shows "\<exists>t. conversationHistory (agentAfter (processMessage rt reg userInput agent w)) =
           conversationHistory agent @
             [\<lparr>role = User, content = userInput, timestamp = dateNow rt w\<rparr>,
              \<lparr>role = Assistant, content = reply, timestamp = t\<rparr>]"
  using assms
  by (auto simp: processMessage_def conversationBranch_def addToHistory_def Let_def
           split: prod.splits sum.splits)

lemma plain_turns_grow_history:
  "length (conversationHistory (fst (processMessages (exampleRuntime []) reg inputs agent w))) =
     length (conversationHistory agent) + 2 * length inputs"
proof (induction inputs arbitrary: agent w)
  case Nil
  then show ?case by simp
next
  case (Cons u us)
  have "length (conversationHistory (agentAfter (processMessage (exampleRuntime []) reg u agent w)))
          = length (conversationHistory agent) + 2"
    by (simp add: agent_defs)
  with Cons.IH show ?case by (simp add: Let_def)
qed

lemma eleven_plain_turns_exceed_bound:
  "length (conversationHistory (fst (processMessages (exampleRuntime [])
       \<lparr>frontendToolEmitter = Some acceptingEmitter\<rparr> (replicate 11 ''hello'')
       (newVoiceAgent ''You are Pixel'') 0))) = 22"
  by (simp add: plain_turns_grow_history newVoiceAgent_def)

text \<open>
  C9.  In a turn in which the router returns at least one tool call and the tool loop
  has collected its results, \<open>processMessage\<close> calls the conversation model once, in
  the world the loop has left, with the system prompt, the user input, and an assistant
  message whose content is \<open>Tool executed successfully: \<close>, then the serialized
  results, then the fixed request for a response, whatever the results are: what
  \<open>processMessage\<close> returns and the world it leaves are what that call gives.  When
  the loop is cut short (an exception, or a tool promise that is never settled) the
  conversation model is not called.
\<close>

theorem tool_context_unconditional:
  assumes "routerChat rt (buildMessagesArray (addToHistory User userInput (dateNow rt w) agent)) w
             = (Inr routerResponse, w')"
      and "tool_calls routerResponse = Some (toolCall # rest)"
  shows "case executeToolCalls rt reg (toolCall # rest) [] w' of
           (Fulfilled toolResults, w'') \<Rightarrow>
             (let handed =
                    [\<lparr>role = System, content = systemPrompt agent\<rparr>,
                     \<lparr>role = User, content = userInput\<rparr>,
                     \<lparr>role = Assistant,
                      content = ''Tool executed successfully: '' @ jsonStringify rt toolResults @
                        ''. Generate a natural, personality-driven response about what was done.''\<rparr>]
              in returned (processMessage rt reg userInput agent w) =
                   (case fst (conversationChat rt handed w'') of
                      Inl e \<Rightarrow> Rejected (failedToProcess e)
                    | Inr conversationResponse \<Rightarrow> Fulfilled (messageContent conversationResponse))
                 \<and> worldAfter (processMessage rt reg userInput agent w) =
                     snd (conversationChat rt handed w'')
                 \<and> conversationRequests (processMessage rt reg userInput agent w) = [handed])
         | (Rejected e, w'') \<Rightarrow>
             returned (processMessage rt reg userInput agent w) = Rejected (failedToProcess e)
             \<and> worldAfter (processMessage rt reg userInput agent w) = w''
             \<and> conversationRequests (processMessage rt reg userInput agent w) = []
         | (Unsettled, w'') \<Rightarrow>
             returned (processMessage rt reg userInput agent w) = Unsettled
             \<and> worldAfter (processMessage rt reg userInput agent w) = w''
             \<and> conversationRequests (processMessage rt reg userInput agent w) = []"
proof -
  let ?asked = "addToHistory User userInput (dateNow rt w) agent"
  have pm: "processMessage rt reg userInput agent w =
              toolBranch rt reg userInput (toolCall # rest) ?asked w'"
    using assms(1,2) by (simp add: processMessage_def Let_def)
  have sp: "systemPrompt ?asked = systemPrompt agent"
    by (simp add: addToHistory_def)
  show ?thesis
    unfolding pm
    by (cases "executeToolCalls rt reg (toolCall # rest) [] w'")
       (auto simp: toolBranch_def toolContext_def sp Let_def
             split: outcome.splits prod.splits sum.splits simp del: executeToolCalls.simps)
qed

text \<open>
  C9, at a concrete input: the router asks for the unknown tool \<open>playMusic\<close>, the only
  result has \<open>success = False\<close>, and the conversation model, which here answers with
  the content of the last message it is handed, answers with the context that begins
  with \<open>Tool executed successfully\<close>.
\<close>

theorem tool_context_unconditional_witness:
  "returned (processMessage (echoRuntime [musicCall])
      \<lparr>frontendToolEmitter = Some acceptingEmitter\<rparr> ''play some jazz''
      (newVoiceAgent ''You are Pixel'') 0) = Fulfilled failureContext
   \<and> worldAfter (processMessage (echoRuntime [musicCall])
      \<lparr>frontendToolEmitter = Some acceptingEmitter\<rparr> ''play some jazz''
      (newVoiceAgent ''You are Pixel'') 0) = 1
   \<and> conversationRequests (processMessage (echoRuntime [musicCall])
      \<lparr>frontendToolEmitter = Some acceptingEmitter\<rparr> ''play some jazz''
      (newVoiceAgent ''You are Pixel'') 0) =
     [[\<lparr>role = System, content = ''You are Pixel''\<rparr>,
       \<lparr>role = User, content = ''play some jazz''\<rparr>,
       \<lparr>role = Assistant, content = failureContext\<rparr>]]"
proof -
  let ?agent = "newVoiceAgent ''You are Pixel''"
  let ?rt = "echoRuntime [musicCall]"
  let ?reg = "\<lparr>frontendToolEmitter = Some acceptingEmitter\<rparr>"
  let ?failed = "\<lparr>success = False, result = JUndefined, error = Some ''Unknown tool: playMusic''\<rparr>"
  let ?handed = "[\<lparr>role = System, content = ''You are Pixel''\<rparr>,
       \<lparr>role = User, content = ''play some jazz''\<rparr>,
       \<lparr>role = Assistant, content = failureContext\<rparr>]"
  have r: "routerChat ?rt
             (buildMessagesArray (addToHistory User ''play some jazz'' (dateNow ?rt 0) ?agent)) 0
             = (Inr \<lparr>messageContent = [], tool_calls = Some [musicCall]\<rparr>, 0)"
    by (simp add: echoRuntime_def exampleRuntime_def askingRouter_def)
  have c: "tool_calls \<lparr>messageContent = [], tool_calls = Some [musicCall]\<rparr> = Some (musicCall # [])"
    by simp
  have e: "executeToolCalls ?rt ?reg [musicCall] [] 0 = (Fulfilled [?failed], 0)"
    by (simp add: toolArgs_def musicCall_def executeTool_def)
  have j: "''Tool executed successfully: '' @ jsonStringify ?rt [?failed] @
             ''. Generate a natural, personality-driven response about what was done.''
           = failureContext"
    by (simp add: echoRuntime_def exampleRuntime_def stringifyResults_def stringifyResult_def
          quoteString_def escapeChar_def failureContext_def)
  have p: "systemPrompt ?agent = ''You are Pixel''"
    by (simp add: newVoiceAgent_def)
  have ch: "conversationChat ?rt ?handed 0 =
              (Inr \<lparr>messageContent = failureContext, tool_calls = None\<rparr>, 1)"
    by (simp add: echoRuntime_def echoingModel_def)
  from tool_context_unconditional [OF r c, of ?reg]
  have "let handed = ?handed
        in returned (processMessage ?rt ?reg ''play some jazz'' ?agent 0) =
                   (case fst (conversationChat ?rt handed 0) of
                      Inl e \<Rightarrow> Rejected (failedToProcess e)
                    | Inr conversationResponse \<Rightarrow> Fulfilled (messageContent conversationResponse))
                 \<and> worldAfter (processMessage ?rt ?reg ''play some jazz'' ?agent 0) =
                     snd (conversationChat ?rt handed 0)
                 \<and> conversationRequests (processMessage ?rt ?reg ''play some jazz'' ?agent 0) = [handed]"
    by (simp only: e j p prod.case outcome.case)
  then show ?thesis
    by (simp only: Let_def ch fst_conv snd_conv sum.case ChatCompletionResponse.simps)
qed

end
